theory Spec2Isabelle
  imports Complex_Main
begin

section \<open>Tensor values\<close>

text \<open>
  A tensor entry is either a finite number or one of the three special values of the
  floating-point format. Finite numbers are real numbers and arithmetic on them is exact:
  rounding, overflow and signed zeros of the machine format are outside the model. The
  special values follow IEEE 754.
\<close>

datatype fp = Fin real | PInf | NInf | NaN

instantiation fp :: comm_monoid_add
begin

definition zero_fp :: fp where
  "zero_fp = Fin 0"

fun plus_fp :: "fp \<Rightarrow> fp \<Rightarrow> fp" where
  "plus_fp NaN y = NaN"
| "plus_fp x NaN = NaN"
| "plus_fp (Fin a) (Fin b) = Fin (a + b)"
| "plus_fp PInf NInf = NaN"
| "plus_fp NInf PInf = NaN"
| "plus_fp PInf y = PInf"
| "plus_fp x PInf = PInf"
| "plus_fp NInf y = NInf"
| "plus_fp x NInf = NInf"

instance
proof
  fix x y z :: fp
  show "0 + x = x"
    by (cases x; simp add: zero_fp_def)
  show "x + y = y + x"
    by (cases x; cases y; simp)
  show "x + y + z = x + (y + z)"
    by (cases x; cases y; cases z; simp)
qed

end

fun fneg :: "fp \<Rightarrow> fp" where
  "fneg (Fin a) = Fin (- a)"
| "fneg PInf = NInf"
| "fneg NInf = PInf"
| "fneg NaN = NaN"

definition fsub :: "fp \<Rightarrow> fp \<Rightarrow> fp" where
  "fsub x y = x + fneg y"

fun fmul :: "fp \<Rightarrow> fp \<Rightarrow> fp" where
  "fmul NaN y = NaN"
| "fmul x NaN = NaN"
| "fmul (Fin a) (Fin b) = Fin (a * b)"
| "fmul (Fin a) PInf = (if a = 0 then NaN else if 0 < a then PInf else NInf)"
| "fmul (Fin a) NInf = (if a = 0 then NaN else if 0 < a then NInf else PInf)"
| "fmul PInf (Fin b) = (if b = 0 then NaN else if 0 < b then PInf else NInf)"
| "fmul NInf (Fin b) = (if b = 0 then NaN else if 0 < b then NInf else PInf)"
| "fmul PInf PInf = PInf"
| "fmul PInf NInf = NInf"
| "fmul NInf PInf = NInf"
| "fmul NInf NInf = PInf"

text \<open>Division; a zero divisor is the positive zero.\<close>

fun fdiv :: "fp \<Rightarrow> fp \<Rightarrow> fp" where
  "fdiv NaN y = NaN"
| "fdiv x NaN = NaN"
| "fdiv (Fin a) (Fin b) =
     (if b \<noteq> 0 then Fin (a / b) else if a = 0 then NaN else if 0 < a then PInf else NInf)"
| "fdiv (Fin a) PInf = Fin 0"
| "fdiv (Fin a) NInf = Fin 0"
| "fdiv PInf (Fin b) = (if 0 \<le> b then PInf else NInf)"
| "fdiv NInf (Fin b) = (if 0 \<le> b then NInf else PInf)"
| "fdiv PInf y = NaN"
| "fdiv NInf y = NaN"

fun flog :: "fp \<Rightarrow> fp" where
  "flog (Fin a) = (if 0 < a then Fin (ln a) else if a = 0 then NInf else NaN)"
| "flog PInf = PInf"
| "flog NInf = NaN"
| "flog NaN = NaN"

fun fsqrt :: "fp \<Rightarrow> fp" where
  "fsqrt (Fin a) = (if 0 \<le> a then Fin (sqrt a) else NaN)"
| "fsqrt PInf = PInf"
| "fsqrt NInf = NaN"
| "fsqrt NaN = NaN"

text \<open>\<open>t.pow(2)\<close> on one entry.\<close>

fun fpow2 :: "fp \<Rightarrow> fp" where
  "fpow2 (Fin a) = Fin (a * a)"
| "fpow2 PInf = PInf"
| "fpow2 NInf = PInf"
| "fpow2 NaN = NaN"

text \<open>\<open>t.gt(0)\<close> on one entry: every comparison with NaN is false.\<close>

fun fgt0 :: "fp \<Rightarrow> bool" where
  "fgt0 (Fin a) = (0 < a)"
| "fgt0 PInf = True"
| "fgt0 NInf = False"
| "fgt0 NaN = False"

text \<open>\<open>0 <= x\<close> as the floating-point comparison: false for NaN.\<close>

fun fge0 :: "fp \<Rightarrow> bool" where
  "fge0 (Fin a) = (0 \<le> a)"
| "fge0 PInf = True"
| "fge0 NInf = False"
| "fge0 NaN = False"

type_synonym vec = "fp list"
type_synonym mat = "fp list list"

section \<open>Errors\<close>

text \<open>The exceptions of Python and torch that the module can raise.\<close>

datatype error = KeyError | IndexError | RuntimeError | ValueError | TypeError
  | AttributeError | UnboundLocalError

definition bind_e :: "error + 'a \<Rightarrow> ('a \<Rightarrow> error + 'b) \<Rightarrow> error + 'b" where
  "bind_e r f = (case r of Inl e \<Rightarrow> Inl e | Inr x \<Rightarrow> f x)"

text \<open>A loop whose body may raise: the first exception ends it.\<close>

fun traverse :: "('a \<Rightarrow> error + 'b) \<Rightarrow> 'a list \<Rightarrow> error + 'b list" where
  "traverse f [] = Inr []"
| "traverse f (x # xs) =
     (case f x of Inl e \<Rightarrow> Inl e
      | Inr y \<Rightarrow> (case traverse f xs of Inl e \<Rightarrow> Inl e | Inr ys \<Rightarrow> Inr (y # ys)))"

text \<open>\<open>d[k]\<close> on a Python dict.\<close>

definition getkey :: "'v option \<Rightarrow> error + 'v" where
  "getkey r = (case r of None \<Rightarrow> Inl KeyError | Some v \<Rightarrow> Inr v)"

definition getitem :: "('k \<rightharpoonup> 'v) \<Rightarrow> 'k \<Rightarrow> error + 'v" where
  "getitem d k = getkey (d k)"

section \<open>Tensor operations of torch\<close>

text \<open>
  A two-dimensional tensor is the list of its rows. A binary elementwise operation
  broadcasts along each dimension: sizes must agree or one of them is 1, otherwise torch
  raises RuntimeError.
\<close>

definition bcast :: "('a \<Rightarrow> 'a \<Rightarrow> error + 'b) \<Rightarrow> 'a list \<Rightarrow> 'a list \<Rightarrow> error + 'b list" where
  "bcast f a b =
     (if length a = length b then traverse (\<lambda>(x, y). f x y) (zip a b)
      else if length a = 1 then traverse (f (hd a)) b
      else if length b = 1 then traverse (\<lambda>x. f x (hd b)) a
      else Inl RuntimeError)"

definition tbinop :: "(fp \<Rightarrow> fp \<Rightarrow> fp) \<Rightarrow> mat \<Rightarrow> mat \<Rightarrow> error + mat" where
  "tbinop f = bcast (bcast (\<lambda>x y. Inr (f x y)))"

definition tadd :: "mat \<Rightarrow> mat \<Rightarrow> error + mat" where
  "tadd = tbinop (+)"

definition tsub :: "mat \<Rightarrow> mat \<Rightarrow> error + mat" where
  "tsub = tbinop fsub"

definition tdiv :: "mat \<Rightarrow> mat \<Rightarrow> error + mat" where
  "tdiv = tbinop fdiv"

text \<open>\<open>t.mean()\<close>: the sum of all entries over their number; NaN for a tensor without entries.\<close>

definition tmean :: "mat \<Rightarrow> fp" where
  "tmean t = fdiv (sum_list (concat t)) (Fin (real (length (concat t))))"

text \<open>\<open>t\<close> has \<open>b\<close> rows of \<open>n\<close> entries each.\<close>

definition dims2 :: "'a list list \<Rightarrow> nat \<Rightarrow> nat \<Rightarrow> bool" where
  "dims2 t b n \<longleftrightarrow> length t = b \<and> list_all (\<lambda>r. length r = n) t"

text \<open>
  \<open>torch.nn.Embedding\<close> with weight table \<open>W\<close>, applied to a one-dimensional tensor of
  indices: row \<open>i\<close> of the result is row \<open>idx[i]\<close> of the table; an index outside the
  table raises IndexError.
\<close>

definition Embedding :: "mat \<Rightarrow> int list \<Rightarrow> error + mat" where
  "Embedding W idx =
     traverse (\<lambda>i. if 0 \<le> i \<and> nat i < length W then Inr (W ! nat i) else Inl IndexError) idx"

text \<open>
  \<open>torch.cat(ts, 0)\<close> for a list of tensors of shape (1, batch, n), each given by its
  only (batch, n) slice: an empty list raises RuntimeError, and so do slices of different
  shapes. The result is the list of slices along dimension 0.
\<close>

definition torch_cat0 :: "mat list \<Rightarrow> error + mat list" where
  "torch_cat0 ts =
     (case ts of [] \<Rightarrow> Inl RuntimeError
      | t # rest \<Rightarrow>
          if list_all (\<lambda>u. map length u = map length t) rest then Inr ts
          else Inl RuntimeError)"

text \<open>\<open>t.sum(0)\<close> of a tensor (k, batch, n) with \<open>k > 0\<close> slices: their elementwise sum.\<close>

definition sum0 :: "mat list \<Rightarrow> mat" where
  "sum0 ts = (case ts of [] \<Rightarrow> [] | t # rest \<Rightarrow> foldl (map2 (map2 (+))) t rest)"

text \<open>
  A one-dimensional integer tensor after \<open>squeeze\<close>: a tensor with exactly one entry
  becomes zero-dimensional, any other tensor is unchanged.
\<close>

datatype long_tensor = Long0 int | Long1 "int list"

definition squeeze :: "int list \<Rightarrow> long_tensor" where
  "squeeze v = (case v of [x] \<Rightarrow> Long0 x | _ \<Rightarrow> Long1 v)"

fun entries :: "long_tensor \<Rightarrow> int list" where
  "entries (Long0 x) = [x]"
| "entries (Long1 v) = v"

text \<open>
  \<open>torch.nn.functional.one_hot(t, num_classes=n)\<close> on the CPU: a negative class value or
  one that is not below \<open>n\<close> raises RuntimeError, and so does an empty tensor with
  \<open>n = 0\<close>. The result has one row per entry of \<open>t\<close>.
\<close>

definition one_hot :: "long_tensor \<Rightarrow> nat \<Rightarrow> error + nat list list" where
  "one_hot t n =
     (let vs = entries t in
      if vs = [] then (if n = 0 then Inl RuntimeError else Inr [])
      else if list_ex (\<lambda>v. v < 0) vs then Inl RuntimeError
      else if list_ex (\<lambda>v. int n \<le> v) vs then Inl RuntimeError
      else Inr (map (\<lambda>v. map (\<lambda>c. if int c = v then 1 else 0) [0..<n]) vs))"

section \<open>The module\<close>

text \<open>
  The distribution objects the module builds or passes on: \<open>db.Normal(loc, scale)\<close> and
  the count distribution returned by the count decoder (a mean per cell and gene, and the
  per-gene dispersion).
\<close>

datatype dist = Normal mat mat | NegativeBinomial mat vec

text \<open>
  \<open>self.encoder\<close> is an \<open>Encoder\<close> (returning mean, variance and a sample) when the
  module is variational and an \<open>FCLayers\<close> stack otherwise (lines 72-90);
  \<open>self.decoder\<close> is a \<open>DecoderGauss\<close> for the family "gauss" and a \<open>DecoderNB\<close>,
  which also takes the dispersion \<open>px_r\<close>, for every other family (lines 104-122).
  The networks are built outside this file (scvi.nn, ._utils); each is a function of its
  input tensor that may raise: its weights, and the random draws of dropout where it is
  active, are held fixed.
\<close>

datatype encoder_net =
    FCLayers_enc "mat \<Rightarrow> error + mat"
  | Encoder_enc "mat \<Rightarrow> error + (mat \<times> mat \<times> mat)"

datatype decoder_net =
    DecoderGauss "mat \<Rightarrow> error + (mat \<times> mat)"
  | DecoderNB "mat \<Rightarrow> vec \<Rightarrow> error + dist"

text \<open>
  The attributes \<open>__init__\<close> sets that the methods read. \<open>covars_to_ncovars\<close> is a
  dict, iterated in insertion order; \<open>l_encoder\<close> exists only for the family "nb"
  (lines 92-100); \<open>covars_embedding\<close> holds the weight table of each
  \<open>torch.nn.Embedding\<close>; \<open>adv_loss_covariates\<close> and \<open>adv_loss_drugs\<close> are the
  criteria \<open>nn.CrossEntropyLoss()\<close> and \<open>nn.BCEWithLogitsLoss()\<close> of torch.
\<close>

record CPAModule =
  n_genes :: nat
  n_drugs :: nat
  n_latent :: nat
  loss_ae :: string
  variational :: bool
  covars_to_ncovars :: "(string \<times> nat) list"
  encoder :: encoder_net
  l_encoder :: "(mat \<Rightarrow> error + mat) option"
  px_r :: vec
  decoder :: decoder_net
  drug_network :: "mat \<Rightarrow> error + mat"
  drugs_classifier :: "mat \<Rightarrow> error + mat"
  covars_embedding :: "string \<rightharpoonup> mat"
  covars_classifiers :: "string \<rightharpoonup> (mat \<Rightarrow> error + mat)"
  adv_loss_covariates :: "mat \<Rightarrow> long_tensor \<Rightarrow> error + fp"
  adv_loss_drugs :: "mat \<Rightarrow> mat \<Rightarrow> error + fp"

text \<open>
  The dict \<open>tensors\<close> of one batch: the expression matrix under
  \<open>_CE_CONSTANTS.X_KEY\<close>, the dose matrix under \<open>_CE_CONSTANTS.PERTURBATIONS\<close>
  (\<open>None\<close> when the key is absent), and the integer-coded levels of the covariates
  under their names, one entry per cell.
\<close>

record batch =
  X_KEY :: "mat option"
  PERTURBATIONS :: "mat option"
  covariates :: "string \<rightharpoonup> int list"

record inference_input =
  genes :: mat
  drugs_doses :: mat
  covars_dict :: "string \<rightharpoonup> int list"

record inference_outputs =
  latent :: mat
  latent_basal :: mat
  dist_qz :: "dist option"
  library :: "mat option"
  io_covars_dict :: "string \<rightharpoonup> int list"

text \<open>
  The dict built by \<open>_get_generative_input\<close>: the key "library" is present only for
  the family "nb", and its value is the nullable \<open>library\<close> of the inference outputs.
\<close>

record generative_input =
  gi_library :: "mat option option"
  gi_latent :: mat
  gi_latent_basal :: mat

text \<open>The two dicts \<open>generative\<close> can return (lines 264-268 and 272-277).\<close>

datatype generative_outputs =
    NBOut (dist_px: dist) (drugs_pred: mat) (covars_pred: "string \<rightharpoonup> mat")
  | GaussOut (means: mat) (variances: mat) (drugs_pred: mat) (covars_pred: "string \<rightharpoonup> mat")

subsection \<open>\<open>_get_inference_input\<close>\<close>

fun covars_dict_loop ::
  "batch \<Rightarrow> (string \<times> nat) list \<Rightarrow> (string \<rightharpoonup> int list) \<Rightarrow> error + (string \<rightharpoonup> int list)" where
  "covars_dict_loop tensors [] acc = Inr acc"
| "covars_dict_loop tensors ((covar, n_covars) # rest) acc =
     bind_e (getitem (covariates tensors) covar) (\<lambda>encoded_covars.
     covars_dict_loop tensors rest (acc(covar \<mapsto> encoded_covars)))"

definition get_inference_input :: "CPAModule \<Rightarrow> batch \<Rightarrow> error + inference_input" where
  "get_inference_input m tensors =
     bind_e (getkey (X_KEY tensors)) (\<lambda>x.
     bind_e (getkey (PERTURBATIONS tensors)) (\<lambda>doses.
     bind_e (covars_dict_loop tensors (covars_to_ncovars m) Map.empty) (\<lambda>cd.
     Inr \<lparr>genes = x, drugs_doses = doses, covars_dict = cd\<rparr>)))"

subsection \<open>\<open>inference\<close>\<close>

text \<open>
  \<open>Normal_init\<close> stands for the constructor \<open>db.Normal\<close> of torch, which may reject
  its arguments. The covariate levels are integer tensors, so \<open>.long()\<close> leaves their
  values unchanged. An encoder of the other kind than \<open>variational\<close> asks for cannot
  come out of \<open>__init__\<close>; the model reports TypeError for it, and AttributeError for a
  missing \<open>l_encoder\<close>. The key "covars_dict" of the returned dict is the field
  \<open>io_covars_dict\<close>.
\<close>

definition embed_covar :: "CPAModule \<Rightarrow> (string \<rightharpoonup> int list) \<Rightarrow> string \<Rightarrow> error + mat" where
  "embed_covar m cd covar =
     bind_e (getitem (covars_embedding m) covar) (\<lambda>W.
     bind_e (getitem cd covar) (\<lambda>v.
     Embedding W v))"

definition inference ::
  "(mat \<Rightarrow> mat \<Rightarrow> error + dist) \<Rightarrow> CPAModule \<Rightarrow> mat \<Rightarrow> mat \<Rightarrow> (string \<rightharpoonup> int list)
     \<Rightarrow> error + inference_outputs" where
  "inference Normal_init m x doses cd =
     bind_e
       (if variational m then
          (case encoder m of
             Encoder_enc f \<Rightarrow>
               bind_e (f x) (\<lambda>(qz_m, qz_v, z).
               bind_e (Normal_init qz_m (map (map fsqrt) qz_v)) (\<lambda>d.
               Inr (Some d, z)))
           | FCLayers_enc f \<Rightarrow> Inl TypeError)
        else
          (case encoder m of
             FCLayers_enc f \<Rightarrow> bind_e (f x) (\<lambda>z. Inr (None, z))
           | Encoder_enc f \<Rightarrow> Inl TypeError))
       (\<lambda>(dist_qzbasal, basal).
     bind_e
       (if loss_ae m = ''nb'' then
          (case l_encoder m of
             None \<Rightarrow> Inl AttributeError
           | Some f \<Rightarrow> bind_e (f x) (\<lambda>l. Inr (Some l)))
        else Inr None)
       (\<lambda>lib.
     bind_e (traverse (\<lambda>(covar, _). embed_covar m cd covar) (covars_to_ncovars m))
       (\<lambda>latent_covariates.
     bind_e (torch_cat0 latent_covariates) (\<lambda>stacked.
     bind_e (drug_network m doses) (\<lambda>latent_treatment.
     bind_e (tadd basal (sum0 stacked)) (\<lambda>s.
     bind_e (tadd s latent_treatment) (\<lambda>lat.
     Inr \<lparr>latent = lat, latent_basal = basal, dist_qz = dist_qzbasal, library = lib,
          io_covars_dict = cd\<rparr>)))))))"

subsection \<open>\<open>_get_generative_input\<close>\<close>

definition get_generative_input ::
  "CPAModule \<Rightarrow> batch \<Rightarrow> inference_outputs \<Rightarrow> error + generative_input" where
  "get_generative_input m tensors io =
     bind_e (traverse (\<lambda>(covar, n_covars).
                bind_e (getitem (covariates tensors) covar) (\<lambda>val.
                one_hot (squeeze val) n_covars))
              (covars_to_ncovars m)) (\<lambda>covars_onehot.
     Inr \<lparr>gi_library = (if loss_ae m = ''nb'' then Some (library io) else None),
          gi_latent = latent io, gi_latent_basal = latent_basal io\<rparr>)"

subsection \<open>\<open>generative\<close>\<close>

text \<open>
  The classifiers run first, on the basal state; the decoder runs last, on the composed
  latent. The count decoder is called with \<open>px_r\<close> and the Gaussian decoder without
  it (lines 263 and 271); a decoder of the other kind is reported as TypeError.
\<close>

fun covars_pred_loop ::
  "CPAModule \<Rightarrow> mat \<Rightarrow> string list \<Rightarrow> (string \<rightharpoonup> mat) \<Rightarrow> error + (string \<rightharpoonup> mat)" where
  "covars_pred_loop m basal [] acc = Inr acc"
| "covars_pred_loop m basal (covar # rest) acc =
     bind_e (getitem (covars_classifiers m) covar) (\<lambda>clf.
     bind_e (clf basal) (\<lambda>covar_pred.
     covars_pred_loop m basal rest (acc(covar \<mapsto> covar_pred))))"

definition generative :: "CPAModule \<Rightarrow> mat \<Rightarrow> mat \<Rightarrow> error + generative_outputs" where
  "generative m lat basal =
     bind_e (drugs_classifier m basal) (\<lambda>dp.
     bind_e (covars_pred_loop m basal (map fst (covars_to_ncovars m)) Map.empty) (\<lambda>cp.
     if loss_ae m = ''nb'' then
       (case decoder m of
          DecoderNB f \<Rightarrow> bind_e (f lat (px_r m)) (\<lambda>d. Inr (NBOut d dp cp))
        | DecoderGauss f \<Rightarrow> Inl TypeError)
     else
       (case decoder m of
          DecoderGauss f \<Rightarrow> bind_e (f lat) (\<lambda>(mus, vars). Inr (GaussOut mus vars dp cp))
        | DecoderNB f \<Rightarrow> Inl TypeError)))"

subsection \<open>\<open>adversarial_loss\<close>\<close>

text \<open>
  \<open>grad w y z\<close> stands for \<open>torch.autograd.grad(y.sum(), z, create_graph=True)[0]\<close>,
  where \<open>y\<close> is the tensor object \<open>covars_pred[c]\<close> for \<open>w = Some c\<close> and
  \<open>drugs_pred\<close> for \<open>w = None\<close>: the gradient of the sum of \<open>y\<close> with respect to
  \<open>z\<close> along the computation torch recorded for that object (a tensor of the shape of
  \<open>z\<close>), or an exception when no such computation was recorded.
\<close>

text \<open>\<open>drugs_doses.gt(0).float()\<close> on one entry.\<close>

definition drug_target :: "fp \<Rightarrow> fp" where
  "drug_target d = (if fgt0 d then Fin 1 else Fin 0)"

fun adv_covars_loop ::
  "CPAModule \<Rightarrow> (string \<rightharpoonup> mat) \<Rightarrow> (string \<rightharpoonup> int list) \<Rightarrow> string list \<Rightarrow> fp \<Rightarrow> error + fp" where
  "adv_covars_loop m cp cd [] acc = Inr acc"
| "adv_covars_loop m cp cd (covar # rest) acc =
     bind_e (getitem cp covar) (\<lambda>logits.
     bind_e (getitem cd covar) (\<lambda>v.
     bind_e (adv_loss_covariates m logits (squeeze v)) (\<lambda>l.
     adv_covars_loop m cp cd rest (acc + l))))"

fun adv_penalty_loop ::
  "(string option \<Rightarrow> mat \<Rightarrow> mat \<Rightarrow> error + mat) \<Rightarrow> (string \<rightharpoonup> mat) \<Rightarrow> mat \<Rightarrow> string list \<Rightarrow> fp \<Rightarrow> error + fp" where
  "adv_penalty_loop grad cp basal [] acc = Inr acc"
| "adv_penalty_loop grad cp basal (covar # rest) acc =
     bind_e (getitem cp covar) (\<lambda>logits.
     bind_e (grad (Some covar) logits basal) (\<lambda>g.
     adv_penalty_loop grad cp basal rest (acc + tmean (map (map fpow2) g))))"

definition adversarial_loss ::
  "(string option \<Rightarrow> mat \<Rightarrow> mat \<Rightarrow> error + mat) \<Rightarrow> CPAModule \<Rightarrow> batch \<Rightarrow> inference_outputs \<Rightarrow> generative_outputs
     \<Rightarrow> error + (fp \<times> fp)" where
  "adversarial_loss grad m tensors io go =
     bind_e (getkey (PERTURBATIONS tensors)) (\<lambda>doses.
     bind_e (adv_covars_loop m (covars_pred go) (io_covars_dict io)
               (map fst (covars_to_ncovars m)) (Fin 0)) (\<lambda>adv_covars_loss.
     bind_e (adv_loss_drugs m (drugs_pred go) (map (map drug_target) doses))
       (\<lambda>adv_drugs_loss.
     bind_e (adv_penalty_loop grad (covars_pred go) (latent_basal io)
               (map fst (covars_to_ncovars m)) (Fin 0)) (\<lambda>adv_penalty_covariates.
     bind_e (grad None (drugs_pred go) (latent_basal io)) (\<lambda>g.
     Inr (adv_drugs_loss + adv_covars_loss,
          adv_penalty_covariates + tmean (map (map fpow2) g)))))))"

subsection \<open>\<open>loss\<close>\<close>

text \<open>
  The count dict of \<open>generative\<close> has no key "means" (line 330 raises KeyError); for a
  family other than "gauss" the name \<open>reconstruction_loss\<close> is never bound (line 357).
\<close>

definition loss ::
  "CPAModule \<Rightarrow> batch \<Rightarrow> inference_outputs \<Rightarrow> generative_outputs \<Rightarrow> error + fp" where
  "loss m tensors io go =
     bind_e (getkey (X_KEY tensors)) (\<lambda>x.
     (case go of
        NBOut d dp cp \<Rightarrow> Inl KeyError
      | GaussOut mus vars dp cp \<Rightarrow>
          if loss_ae m = ''gauss'' then
            (let term1 = map (map (\<lambda>v. fdiv (flog v) (Fin 2))) vars in
             bind_e (tsub x mus) (\<lambda>d.
             bind_e (tdiv (map (map fpow2) d) (map (map (\<lambda>v. fmul v (Fin 2))) vars)) (\<lambda>term2.
             bind_e (tadd term1 term2) (\<lambda>s.
             Inr (tmean s)))))
          else Inl UnboundLocalError))"

subsection \<open>\<open>forward\<close> and \<open>get_expression\<close>\<close>

text \<open>
  \<open>forward(tensors, compute_loss=False)\<close> of the base class of scvi runs
  \<open>_get_inference_input\<close>, \<open>inference\<close>, \<open>_get_generative_input\<close> and
  \<open>generative\<close>, passing each dict on as keyword arguments, and returns both outputs.
  \<open>generative\<close> takes \<open>latent\<close> and \<open>latent_basal\<close> only, so the key "library" of the
  generative input is an unexpected keyword argument (TypeError). \<open>get_expression\<close> is
  modelled without further inference keyword arguments.
\<close>

definition forward ::
  "(mat \<Rightarrow> mat \<Rightarrow> error + dist) \<Rightarrow> CPAModule \<Rightarrow> batch
     \<Rightarrow> error + (inference_outputs \<times> generative_outputs)" where
  "forward Normal_init m tensors =
     bind_e (get_inference_input m tensors) (\<lambda>ii.
     bind_e (inference Normal_init m (genes ii) (drugs_doses ii) (covars_dict ii)) (\<lambda>io.
     bind_e (get_generative_input m tensors io) (\<lambda>gi.
     bind_e (case gi_library gi of
               Some l \<Rightarrow> Inl TypeError
             | None \<Rightarrow> generative m (gi_latent gi) (gi_latent_basal gi)) (\<lambda>go.
     Inr (io, go)))))"

definition get_expression ::
  "(mat \<Rightarrow> mat \<Rightarrow> error + dist) \<Rightarrow> CPAModule \<Rightarrow> batch \<Rightarrow> error + (mat \<times> mat)" where
  "get_expression Normal_init m tensors =
     bind_e (forward Normal_init m tensors) (\<lambda>(io, go).
     if loss_ae m = ''gauss'' then
       (case go of
          GaussOut mus stds dp cp \<Rightarrow> Inr (mus, stds)
        | NBOut d dp cp \<Rightarrow> Inl KeyError)
     else Inl ValueError)"

section \<open>What \<open>__init__\<close> guarantees, and consistent batches\<close>

text \<open>
  The shapes fixed at construction: the encoder maps a batch to \<open>n_latent\<close> columns
  (\<open>n_out=n_latent\<close>, lines 73-90), every embedding table has \<open>n_latent\<close> columns
  (line 145), the dose-response network returns one row of \<open>n_latent\<close> entries per cell
  and the Gaussian decoder one row of \<open>n_genes\<close> entries per cell, for the means and for
  the variances (lines 105-113 and 126-131; both networks are defined in ._utils). The
  encoder and the decoder are the variants chosen by \<open>variational\<close> and \<open>loss_ae\<close>.
\<close>

definition wf_encoder :: "CPAModule \<Rightarrow> bool" where
  "wf_encoder m =
     (case encoder m of
        FCLayers_enc f \<Rightarrow> \<not> variational m \<and> (\<forall>x y. f x = Inr y \<longrightarrow> dims2 y (length x) (n_latent m))
      | Encoder_enc f \<Rightarrow>
          variational m \<and> (\<forall>x a b z. f x = Inr (a, b, z) \<longrightarrow> dims2 z (length x) (n_latent m)))"

definition wf_decoder :: "CPAModule \<Rightarrow> bool" where
  "wf_decoder m =
     (case decoder m of
        DecoderGauss f \<Rightarrow>
          loss_ae m = ''gauss'' \<and>
          (\<forall>z mus vars. f z = Inr (mus, vars) \<longrightarrow>
             dims2 mus (length z) (n_genes m) \<and> dims2 vars (length z) (n_genes m))
      | DecoderNB f \<Rightarrow> loss_ae m \<noteq> ''gauss'')"

definition wf_module :: "CPAModule \<Rightarrow> bool" where
  "wf_module m \<longleftrightarrow>
     wf_encoder m \<and> wf_decoder m \<and>
     (\<forall>d y. drug_network m d = Inr y \<longrightarrow> dims2 y (length d) (n_latent m)) \<and>
     (\<forall>c W. covars_embedding m c = Some W \<longrightarrow> list_all (\<lambda>r. length r = n_latent m) W)"

text \<open>
  A batch of \<open>b\<close> cells for the vocabulary of \<open>m\<close>: the dose matrix and the supplied
  level vector of every covariate of the vocabulary have one entry per cell.
\<close>

definition covars_aligned :: "CPAModule \<Rightarrow> (string \<rightharpoonup> int list) \<Rightarrow> nat \<Rightarrow> bool" where
  "covars_aligned m cd b \<longleftrightarrow>
     list_all (\<lambda>(c, n). case cd c of None \<Rightarrow> True | Some v \<Rightarrow> length v = b) (covars_to_ncovars m)"

definition batch_of :: "CPAModule \<Rightarrow> batch \<Rightarrow> nat \<Rightarrow> bool" where
  "batch_of m tensors b \<longleftrightarrow>
     (\<exists>x d. X_KEY tensors = Some x \<and> PERTURBATIONS tensors = Some d \<and>
            length x = b \<and> length d = b) \<and>
     covars_aligned m (covariates tensors) b"

section \<open>A small module\<close>

text \<open>
  Two genes, one drug, two latent dimensions and the vocabulary {"batch": 2}, with the
  Gaussian likelihood and a deterministic encoder. Each network is a fixed linear map
  that rejects an input of the wrong width.
\<close>

definition width_is :: "nat \<Rightarrow> mat \<Rightarrow> bool" where
  "width_is n x = list_all (\<lambda>r. length r = n) x"

fun fexp :: "fp \<Rightarrow> fp" where
  "fexp (Fin a) = Fin (exp a)"
| "fexp PInf = PInf"
| "fexp NInf = Fin 0"
| "fexp NaN = NaN"

text \<open>
  The criteria of the small module. The first is the mean over the cells of
  \<open>log (sum_c exp x_c) - x_y\<close> for class indices \<open>y\<close> in range and one level per
  cell, and raises otherwise.
\<close>

definition cross_entropy :: "mat \<Rightarrow> long_tensor \<Rightarrow> error + fp" where
  "cross_entropy logits target =
     (case target of
        Long0 y \<Rightarrow> Inl ValueError
      | Long1 ys \<Rightarrow>
          if length ys \<noteq> length logits then Inl ValueError
          else if list_ex (\<lambda>(r, y). y < 0 \<or> int (length r) \<le> y) (zip logits ys)
          then Inl IndexError
          else Inr (tmean [map (\<lambda>(r, y). fsub (flog (sum_list (map fexp r))) (r ! nat y))
                             (zip logits ys)]))"

text \<open>The second is the mean over all entries of \<open>log (1 + exp x) - t * x\<close>.\<close>

definition bce_with_logits :: "mat \<Rightarrow> mat \<Rightarrow> error + fp" where
  "bce_with_logits logits target =
     (if map length logits \<noteq> map length target then Inl ValueError
      else Inr (tmean (map2 (map2 (\<lambda>x t. fsub (flog (Fin 1 + fexp x)) (fmul t x))) logits target)))"

definition small_module :: CPAModule where
  "small_module =
     \<lparr>n_genes = 2, n_drugs = 1, n_latent = 2, loss_ae = ''gauss'', variational = False,
      covars_to_ncovars = [(''batch'', 2)],
      encoder = FCLayers_enc (\<lambda>x. if width_is 2 x then Inr x else Inl RuntimeError),
      l_encoder = None,
      px_r = [Fin 0, Fin 0],
      decoder = DecoderGauss (\<lambda>z. if width_is 2 z then Inr (z, map (map (\<lambda>v. Fin 1)) z)
                                   else Inl RuntimeError),
      drug_network = (\<lambda>d. if width_is 1 d then Inr (map (\<lambda>r. [hd r, hd r]) d)
                           else Inl RuntimeError),
      drugs_classifier = (\<lambda>z. if width_is 2 z then Inr (map (\<lambda>r. [sum_list r]) z)
                               else Inl RuntimeError),
      covars_embedding = [''batch'' \<mapsto> [[Fin 0, Fin 0], [Fin 1, Fin 1]]],
      covars_classifiers = [''batch'' \<mapsto> (\<lambda>z. if width_is 2 z then Inr z else Inl RuntimeError)],
      adv_loss_covariates = cross_entropy,
      adv_loss_drugs = bce_with_logits\<rparr>"

text \<open>The same module for the count likelihood, with the library encoder and the count decoder.\<close>

definition small_module_nb :: CPAModule where
  "small_module_nb =
     small_module
       \<lparr>loss_ae := ''nb'',
        l_encoder := Some (\<lambda>x. if width_is 2 x then Inr (map (\<lambda>r. [sum_list r]) x)
                                else Inl RuntimeError),
        decoder := DecoderNB (\<lambda>z r. if width_is 2 z then Inr (NegativeBinomial z r)
                                     else Inl RuntimeError)\<rparr>"

text \<open>A batch of two cells: the first untreated at level 0, the second treated at level 1.\<close>

definition small_batch :: batch where
  "small_batch =
     \<lparr>X_KEY = Some [[Fin 1, Fin 2], [Fin 3, Fin 4]],
      PERTURBATIONS = Some [[Fin 0], [Fin 1]],
      covariates = [''batch'' \<mapsto> [0, 1]]\<rparr>"

text \<open>\<open>db.Normal\<close> without argument validation.\<close>

definition Normal_unchecked :: "mat \<Rightarrow> mat \<Rightarrow> error + dist" where
  "Normal_unchecked l s = Inr (Normal l s)"

text \<open>A variational module for the count likelihood: its encoder returns mean, variance and sample.\<close>

definition small_module_vae :: CPAModule where
  "small_module_vae =
     small_module_nb
       \<lparr>variational := True,
        encoder := Encoder_enc (\<lambda>x. if width_is 2 x then Inr (x, map (map (\<lambda>v. Fin 1)) x, x)
                                    else Inl RuntimeError)\<rparr>"

text \<open>The outputs of \<open>inference\<close> and \<open>generative\<close> of the small module on the small batch.\<close>

definition small_inference_outputs :: inference_outputs where
  "small_inference_outputs =
     \<lparr>latent = [[Fin 1, Fin 2], [Fin 5, Fin 6]],
      latent_basal = [[Fin 1, Fin 2], [Fin 3, Fin 4]],
      dist_qz = None, library = None,
      io_covars_dict = [''batch'' \<mapsto> [0, 1]]\<rparr>"

definition small_generative_outputs :: generative_outputs where
  "small_generative_outputs =
     GaussOut [[Fin 1, Fin 2], [Fin 5, Fin 6]] [[Fin 1, Fin 1], [Fin 1, Fin 1]]
       [[Fin 3], [Fin 7]] [''batch'' \<mapsto> [[Fin 1, Fin 2], [Fin 3, Fin 4]]]"

text \<open>The small module built with the empty vocabulary.\<close>

definition small_module_no_covars :: CPAModule where
  "small_module_no_covars =
     small_module
       \<lparr>covars_to_ncovars := [], covars_embedding := Map.empty,
        covars_classifiers := Map.empty\<rparr>"

text \<open>A stand-in for autograd: the gradient with every entry 1, of the shape of \<open>z\<close>.\<close>

definition unit_grad :: "string option \<Rightarrow> mat \<Rightarrow> mat \<Rightarrow> error + mat" where
  "unit_grad w y z = Inr (map (map (\<lambda>e. Fin 1)) z)"

section \<open>Reference quantities\<close>

text \<open>
  The negative Gaussian log-likelihood of one entry, up to its constant:
  \<open>0.5*log(variance) + (x-mean)^2/(2*variance)\<close>.
\<close>

definition gauss_nll :: "real \<Rightarrow> real \<Rightarrow> real \<Rightarrow> real" where
  "gauss_nll x a v = 0.5 * ln v + (x - a)\<^sup>2 / (2 * v)"

text \<open>A tensor with at least one entry and no NaN entry.\<close>

definition nan_free :: "mat \<Rightarrow> bool" where
  "nan_free g \<longleftrightarrow> concat g \<noteq> [] \<and> list_all (\<lambda>e. e \<noteq> NaN) (concat g)"

section \<open>Basic facts\<close>

lemmas model_defs = bind_e_def getkey_def getitem_def bcast_def tbinop_def tadd_def tsub_def
  tdiv_def tmean_def dims2_def Embedding_def torch_cat0_def sum0_def squeeze_def one_hot_def
  get_inference_input_def embed_covar_def inference_def get_generative_input_def generative_def
  adversarial_loss_def loss_def forward_def get_expression_def width_is_def
  small_module_def small_module_nb_def small_module_vae_def small_module_no_covars_def
  small_batch_def drug_target_def unit_grad_def cross_entropy_def bce_with_logits_def
  Normal_unchecked_def small_inference_outputs_def small_generative_outputs_def

lemma bind_e_Inl [simp]: "bind_e (Inl e) f = Inl e"
  by (simp add: bind_e_def)

lemma bind_e_Inr [simp]: "bind_e (Inr x) f = f x"
  by (simp add: bind_e_def)

lemma bind_e_eq_Inr: "bind_e r f = Inr y \<longleftrightarrow> (\<exists>x. r = Inr x \<and> f x = Inr y)"
  by (cases r) simp_all

lemma small_inference:
  "inference Normal_unchecked small_module [[Fin 1, Fin 2], [Fin 3, Fin 4]] [[Fin 0], [Fin 1]]
     [''batch'' \<mapsto> [0, 1]] = Inr small_inference_outputs"
  by (simp add: model_defs)

lemma small_generative:
  "generative small_module [[Fin 1, Fin 2], [Fin 5, Fin 6]] [[Fin 1, Fin 2], [Fin 3, Fin 4]]
     = Inr small_generative_outputs"
  by (simp add: model_defs)

lemma traverse_Inr_length: "traverse f xs = Inr ys \<Longrightarrow> length ys = length xs"
  by (induction xs arbitrary: ys) (auto split: sum.splits)

lemma traverse_Inr_nth:
  "traverse f xs = Inr ys \<Longrightarrow> i < length xs \<Longrightarrow> f (xs ! i) = Inr (ys ! i)"
proof (induction xs arbitrary: ys i)
  case Nil
  then show ?case by simp
next
  case (Cons x xs)
  then show ?case by (cases i) (auto split: sum.splits)
qed

lemma traverse_pure: "traverse (\<lambda>x. Inr (g x)) xs = Inr (map g xs)"
  by (induction xs) simp_all

lemma traverse_cong_set: "\<forall>x\<in>set xs. f x = g x \<Longrightarrow> traverse f xs = traverse g xs"
  by (induction xs) (simp_all split: sum.splits)

lemma traverse_fails: "x \<in> set xs \<Longrightarrow> f x = Inl e \<Longrightarrow> \<exists>e'. traverse f xs = Inl e'"
  by (induction xs) (auto split: sum.splits)

lemma bcast_eq_len:
  "length a = length b \<Longrightarrow> bcast g a b = traverse (\<lambda>(x, y). g x y) (zip a b)"
  by (simp add: bcast_def)

lemma bcast_same: "length a = length b \<Longrightarrow> bcast (\<lambda>x y. Inr (f x y)) a b = Inr (map2 f a b)"
proof -
  assume "length a = length b"
  then have "bcast (\<lambda>x y. Inr (f x y)) a b = traverse (\<lambda>p. Inr (case p of (x, y) \<Rightarrow> f x y)) (zip a b)"
    by (simp add: bcast_def case_prod_unfold)
  then show ?thesis by (simp add: traverse_pure)
qed

lemma dims2_nth: "dims2 t b n \<Longrightarrow> i < b \<Longrightarrow> length (t ! i) = n"
  by (simp add: dims2_def list_all_length)

lemma dims2_set: "dims2 t b n \<Longrightarrow> r \<in> set t \<Longrightarrow> length r = n"
  by (simp add: dims2_def list_all_iff)

lemma tbinop_same_dims:
  assumes "dims2 a b n" and "dims2 c b n"
  shows "tbinop f a c = Inr (map2 (map2 f) a c)"
proof -
  have len: "length a = length c"
    using assms by (simp add: dims2_def)
  have "traverse (\<lambda>(x, y). bcast (\<lambda>u v. Inr (f u v)) x y) (zip a c)
          = traverse (\<lambda>p. Inr (case p of (x, y) \<Rightarrow> map2 f x y)) (zip a c)"
  proof (rule traverse_cong_set, rule ballI)
    fix p assume p: "p \<in> set (zip a c)"
    obtain x y where xy: "p = (x, y)"
      by (cases p)
    with p have "x \<in> set a" "y \<in> set c"
      by (auto dest: set_zip_leftD set_zip_rightD)
    then have "length x = length y"
      using assms by (simp add: dims2_set)
    then show "(case p of (x, y) \<Rightarrow> bcast (\<lambda>u v. Inr (f u v)) x y)
                 = Inr (case p of (x, y) \<Rightarrow> map2 f x y)"
      by (simp add: xy bcast_same)
  qed
  then have "traverse (\<lambda>(x, y). bcast (\<lambda>u v. Inr (f u v)) x y) (zip a c)
               = Inr (map2 (map2 f) a c)"
    by (simp add: traverse_pure)
  then show ?thesis
    unfolding tbinop_def by (simp only: bcast_eq_len [OF len])
qed

lemma dims2_map2:
  assumes "dims2 a b n" and "dims2 c b n"
  shows "dims2 (map2 (map2 f) a c) b n"
  using assms by (auto simp: dims2_def list_all_length)

lemma nth_map2_map2:
  assumes "dims2 a b n" and "dims2 c b n" and "i < b" and "j < n"
  shows "map2 (map2 f) a c ! i ! j = f (a ! i ! j) (c ! i ! j)"
  using assms by (simp add: dims2_def list_all_length)

lemma Embedding_Inr:
  assumes "Embedding W idx = Inr e"
  shows "length e = length idx"
    and "i < length idx \<Longrightarrow> 0 \<le> idx ! i \<and> nat (idx ! i) < length W \<and> e ! i = W ! nat (idx ! i)"
proof -
  show "length e = length idx"
    using assms by (simp add: Embedding_def traverse_Inr_length)
  assume "i < length idx"
  with assms have "(if 0 \<le> idx ! i \<and> nat (idx ! i) < length W then Inr (W ! nat (idx ! i)) else Inl IndexError) = Inr (e ! i)"
    unfolding Embedding_def by (rule traverse_Inr_nth)
  then show "0 \<le> idx ! i \<and> nat (idx ! i) < length W \<and> e ! i = W ! nat (idx ! i)"
    by (auto split: if_splits)
qed

lemma foldl_add_dims:
  assumes "dims2 t b n" and "list_all (\<lambda>u. dims2 u b n) rest"
  shows "dims2 (foldl (map2 (map2 (+))) t rest) b n"
  using assms by (induction rest arbitrary: t) (simp_all add: dims2_map2)

lemma foldl_add_nth:
  fixes t :: mat
  assumes "dims2 t b n" and "list_all (\<lambda>u. dims2 u b n) rest" and "i < b" and "j < n"
  shows "foldl (map2 (map2 (+))) t rest ! i ! j = t ! i ! j + (\<Sum>u\<leftarrow>rest. u ! i ! j)"
  using assms
proof (induction rest arbitrary: t)
  case Nil
  then show ?case by simp
next
  case (Cons u rest)
  then have "dims2 (map2 (map2 (+)) t u) b n"
    by (simp add: dims2_map2)
  with Cons show ?case
    by (simp add: nth_map2_map2 add.assoc)
qed

lemma sum0_dims:
  assumes "ts \<noteq> []" and "list_all (\<lambda>u. dims2 u b n) ts"
  shows "dims2 (sum0 ts) b n"
  using assms by (cases ts) (simp_all add: sum0_def foldl_add_dims)

lemma sum0_nth:
  assumes "ts \<noteq> []" and "list_all (\<lambda>u. dims2 u b n) ts" and "i < b" and "j < n"
  shows "sum0 ts ! i ! j = (\<Sum>u\<leftarrow>ts. u ! i ! j)"
proof (cases ts)
  case Nil
  with assms show ?thesis by simp
next
  case (Cons t rest)
  with assms have "dims2 t b n" "list_all (\<lambda>u. dims2 u b n) rest"
    by simp_all
  from foldl_add_nth [OF this \<open>i < b\<close> \<open>j < n\<close>] show ?thesis
    by (simp add: Cons sum0_def)
qed

lemma torch_cat0_Inr: "torch_cat0 ts = Inr us \<Longrightarrow> us = ts \<and> ts \<noteq> []"
  by (auto simp: torch_cat0_def split: list.splits if_splits)

lemma inference_InrD:
  assumes "inference Normal_init m x doses cd = Inr out"
  shows "\<exists>embs treat s.
           traverse (\<lambda>(covar, n). embed_covar m cd covar) (covars_to_ncovars m) = Inr embs \<and>
           embs \<noteq> [] \<and>
           drug_network m doses = Inr treat \<and>
           tadd (latent_basal out) (sum0 embs) = Inr s \<and>
           tadd s treat = Inr (latent out) \<and>
           io_covars_dict out = cd \<and>
           (case encoder m of
              FCLayers_enc f \<Rightarrow> \<not> variational m \<and> f x = Inr (latent_basal out)
            | Encoder_enc f \<Rightarrow> variational m \<and> (\<exists>qm qv. f x = Inr (qm, qv, latent_basal out)))"
  using assms unfolding inference_def
  by (auto simp: bind_e_eq_Inr dest!: torch_cat0_Inr
           split: if_splits encoder_net.splits option.splits)

lemma embed_covar_Inr:
  assumes "embed_covar m cd c = Inr e"
  shows "\<exists>W v. covars_embedding m c = Some W \<and> cd c = Some v \<and> Embedding W v = Inr e"
  using assms
  by (auto simp: embed_covar_def getitem_def getkey_def bind_e_eq_Inr split: option.splits)

lemma Embedding_dims:
  assumes "Embedding W v = Inr e" and "list_all (\<lambda>r. length r = n) W"
  shows "dims2 e (length v) n"
proof -
  have "length (e ! i) = n" if "i < length v" for i
    using Embedding_Inr(2) [OF assms(1) that] assms(2) by (simp add: list_all_length)
  then show ?thesis
    using Embedding_Inr(1) [OF assms(1)] by (simp add: dims2_def list_all_length)
qed

lemma embs_dims:
  assumes wf: "wf_module m" and al: "covars_aligned m cd b"
    and tr: "traverse (\<lambda>(covar, n). embed_covar m cd covar) (covars_to_ncovars m) = Inr embs"
  shows "list_all (\<lambda>u. dims2 u b (n_latent m)) embs"
proof -
  have len: "length embs = length (covars_to_ncovars m)"
    using tr by (rule traverse_Inr_length)
  have "dims2 (embs ! k) b (n_latent m)" if k: "k < length (covars_to_ncovars m)" for k
  proof -
    obtain c n where cn: "covars_to_ncovars m ! k = (c, n)"
      by (cases "covars_to_ncovars m ! k")
    from traverse_Inr_nth [OF tr k] cn have "embed_covar m cd c = Inr (embs ! k)"
      by simp
    then obtain W v where W: "covars_embedding m c = Some W" and v: "cd c = Some v"
        and e: "Embedding W v = Inr (embs ! k)"
      using embed_covar_Inr by blast
    from wf W have "list_all (\<lambda>r. length r = n_latent m) W"
      by (simp add: wf_module_def)
    with e have "dims2 (embs ! k) (length v) (n_latent m)"
      by (rule Embedding_dims)
    moreover from al k cn v have "length v = b"
      by (auto simp: covars_aligned_def list_all_length split: prod.splits)
    ultimately show ?thesis by simp
  qed
  with len show ?thesis by (simp add: list_all_length)
qed

lemma embs_lookup:
  assumes al: "covars_aligned m cd b"
    and tr: "traverse (\<lambda>(covar, n). embed_covar m cd covar) (covars_to_ncovars m) = Inr embs"
    and k: "k < length (covars_to_ncovars m)"
  shows "\<exists>W v. covars_embedding m (fst (covars_to_ncovars m ! k)) = Some W \<and>
               cd (fst (covars_to_ncovars m ! k)) = Some v \<and>
               (\<forall>i<b. embs ! k ! i = W ! nat (v ! i))"
proof -
  obtain c n where cn: "covars_to_ncovars m ! k = (c, n)"
    by (cases "covars_to_ncovars m ! k")
  from traverse_Inr_nth [OF tr k] cn have "embed_covar m cd c = Inr (embs ! k)"
    by simp
  then obtain W v where W: "covars_embedding m c = Some W" and v: "cd c = Some v"
      and e: "Embedding W v = Inr (embs ! k)"
    using embed_covar_Inr by blast
  from al k cn v have "length v = b"
    by (auto simp: covars_aligned_def list_all_length split: prod.splits)
  with Embedding_Inr(2) [OF e] have "\<forall>i<b. embs ! k ! i = W ! nat (v ! i)"
    by simp
  with W v cn show ?thesis by simp
qed

lemma basal_dims:
  assumes "wf_module m" and "inference Normal_init m x doses cd = Inr out"
  shows "dims2 (latent_basal out) (length x) (n_latent m)"
  using inference_InrD [OF assms(2)] assms(1)
  by (auto simp: wf_module_def wf_encoder_def split: encoder_net.splits)

text \<open>
  On a consistent batch nothing is broadcast: the composed latent is the entrywise sum of
  three tensors of shape (batch, n_latent).
\<close>

lemma inference_latent_eq:
  assumes wf: "wf_module m"
    and al: "covars_aligned m cd (length x)" and dl: "length doses = length x"
    and ok: "inference Normal_init m x doses cd = Inr out"
  shows "\<exists>embs treat.
           traverse (\<lambda>(covar, n). embed_covar m cd covar) (covars_to_ncovars m) = Inr embs \<and>
           embs \<noteq> [] \<and>
           drug_network m doses = Inr treat \<and>
           list_all (\<lambda>u. dims2 u (length x) (n_latent m)) embs \<and>
           dims2 treat (length x) (n_latent m) \<and>
           dims2 (latent_basal out) (length x) (n_latent m) \<and>
           dims2 (sum0 embs) (length x) (n_latent m) \<and>
           dims2 (latent out) (length x) (n_latent m) \<and>
           latent out
             = map2 (map2 (+)) (map2 (map2 (+)) (latent_basal out) (sum0 embs)) treat"
proof -
  let ?b = "length x" and ?n = "n_latent m"
  from inference_InrD [OF ok] obtain embs treat s where
      tr: "traverse (\<lambda>(covar, n). embed_covar m cd covar) (covars_to_ncovars m) = Inr embs"
    and ne: "embs \<noteq> []"
    and dn: "drug_network m doses = Inr treat"
    and s: "tadd (latent_basal out) (sum0 embs) = Inr s"
    and l: "tadd s treat = Inr (latent out)"
    by blast
  have db: "dims2 (latent_basal out) ?b ?n"
    using wf ok by (rule basal_dims)
  have de: "list_all (\<lambda>u. dims2 u ?b ?n) embs"
    using wf al tr by (rule embs_dims)
  have dc: "dims2 (sum0 embs) ?b ?n"
    using ne de by (rule sum0_dims)
  have "dims2 treat (length doses) ?n"
    using wf dn by (simp add: wf_module_def)
  then have dt: "dims2 treat ?b ?n"
    by (simp add: dl)
  have s_eq: "s = map2 (map2 (+)) (latent_basal out) (sum0 embs)"
    using s tbinop_same_dims [OF db dc, of "(+)"] by (simp add: tadd_def)
  have ds: "dims2 s ?b ?n"
    unfolding s_eq using db dc by (rule dims2_map2)
  have l_eq: "latent out = map2 (map2 (+)) s treat"
    using l tbinop_same_dims [OF ds dt, of "(+)"] by (simp add: tadd_def)
  have dl': "dims2 (latent out) ?b ?n"
    unfolding l_eq using ds dt by (rule dims2_map2)
  from tr ne dn de dt db dc dl' l_eq s_eq show ?thesis by blast
qed

lemma wf_small_module: "wf_module small_module"
  by (auto simp: wf_module_def wf_encoder_def wf_decoder_def small_module_def width_is_def
                 dims2_def list_all_iff split: if_splits)

subsection \<open>The forward pass\<close>

lemma getitem_eq_Inr: "getitem d k = Inr v \<longleftrightarrow> d k = Some v"
  by (simp add: getitem_def getkey_def split: option.splits)

lemma getkey_eq_Inr: "getkey r = Inr v \<longleftrightarrow> r = Some v"
  by (simp add: getkey_def split: option.splits)

lemma covars_dict_loop_Inr:
  assumes "covars_dict_loop tensors vocab acc = Inr cd"
  shows "cd c = (if c \<in> fst ` set vocab then covariates tensors c else acc c)"
    and "c \<in> fst ` set vocab \<Longrightarrow> covariates tensors c \<noteq> None"
  using assms
proof (induction vocab arbitrary: acc)
  case Nil
  { case 1 then show ?case by simp }
  { case 2 then show ?case by simp }
next
  case (Cons p vocab)
  obtain k n where p: "p = (k, n)" by (cases p)
  { case 1
    with p obtain v where v: "covariates tensors k = Some v"
        and r: "covars_dict_loop tensors vocab (acc(k \<mapsto> v)) = Inr cd"
      by (auto simp: bind_e_eq_Inr getitem_eq_Inr)
    from Cons.IH(1) [OF r] v p show ?case by auto }
  { case 2
    from 2(2) p obtain v where v: "covariates tensors k = Some v"
        and r: "covars_dict_loop tensors vocab (acc(k \<mapsto> v)) = Inr cd"
      by (auto simp: bind_e_eq_Inr getitem_eq_Inr)
    from Cons.IH(2) [OF _ r] 2(1) v p show ?case by auto }
qed

lemma covars_dict_loop_Inl: "covars_dict_loop tensors vocab acc = Inl e \<Longrightarrow> e = KeyError"
proof (induction vocab arbitrary: acc)
  case Nil
  then show ?case by simp
next
  case (Cons p vocab)
  obtain k n where p: "p = (k, n)" by (cases p)
  show ?case
  proof (cases "covariates tensors k")
    case None
    with Cons.prems p show ?thesis by (simp add: getitem_def getkey_def)
  next
    case (Some v)
    with Cons.prems p have "covars_dict_loop tensors vocab (acc(k \<mapsto> v)) = Inl e"
      by (simp add: getitem_def getkey_def)
    then show ?thesis by (rule Cons.IH)
  qed
qed

lemma covars_dict_loop_cong:
  assumes "\<forall>c\<in>fst ` set vocab. covariates t1 c = covariates t2 c"
  shows "covars_dict_loop t1 vocab acc = covars_dict_loop t2 vocab acc"
  using assms
proof (induction vocab arbitrary: acc)
  case Nil
  then show ?case by simp
next
  case (Cons p vocab)
  obtain k n where p: "p = (k, n)" by (cases p)
  with Cons show ?case
    by (cases "covariates t2 k") (simp_all add: getitem_def getkey_def)
qed

lemma get_inference_input_Inl: "get_inference_input m tensors = Inl e \<Longrightarrow> e = KeyError"
  unfolding get_inference_input_def
  by (cases "X_KEY tensors"; cases "PERTURBATIONS tensors";
      cases "covars_dict_loop tensors (covars_to_ncovars m) Map.empty")
     (auto simp: getkey_def dest: covars_dict_loop_Inl)

lemma get_inference_input_Inr:
  assumes "get_inference_input m tensors = Inr ii"
  shows "X_KEY tensors = Some (genes ii)" and "PERTURBATIONS tensors = Some (drugs_doses ii)"
    and "covars_dict ii c
           = (if c \<in> fst ` set (covars_to_ncovars m) then covariates tensors c else None)"
    and "c \<in> fst ` set (covars_to_ncovars m) \<Longrightarrow> covariates tensors c \<noteq> None"
proof -
  from assms obtain x d cd where x: "X_KEY tensors = Some x" and d: "PERTURBATIONS tensors = Some d"
      and cd: "covars_dict_loop tensors (covars_to_ncovars m) Map.empty = Inr cd"
      and ii: "ii = \<lparr>genes = x, drugs_doses = d, covars_dict = cd\<rparr>"
    by (auto simp: get_inference_input_def bind_e_eq_Inr getkey_eq_Inr)
  show "X_KEY tensors = Some (genes ii)" "PERTURBATIONS tensors = Some (drugs_doses ii)"
    using x d ii by simp_all
  show "covars_dict ii c
           = (if c \<in> fst ` set (covars_to_ncovars m) then covariates tensors c else None)"
    using covars_dict_loop_Inr(1) [OF cd, of c] ii by simp
  show "c \<in> fst ` set (covars_to_ncovars m) \<Longrightarrow> covariates tensors c \<noteq> None"
    using covars_dict_loop_Inr(2) [OF cd] by simp
qed

lemma covars_aligned_cong:
  assumes "\<forall>c\<in>fst ` set (covars_to_ncovars m). cd1 c = cd2 c"
  shows "covars_aligned m cd1 b = covars_aligned m cd2 b"
  using assms unfolding covars_aligned_def list_all_iff
  by (auto split: prod.splits) (metis fst_conv image_eqI)+

lemma forward_InrD:
  assumes "forward Normal_init m tensors = Inr (io, go)"
  shows "\<exists>ii gi. get_inference_input m tensors = Inr ii \<and>
           inference Normal_init m (genes ii) (drugs_doses ii) (covars_dict ii) = Inr io \<and>
           get_generative_input m tensors io = Inr gi \<and>
           loss_ae m \<noteq> ''nb'' \<and>
           generative m (latent io) (latent_basal io) = Inr go"
  using assms unfolding forward_def get_generative_input_def
  by (auto simp: bind_e_eq_Inr split: option.splits if_splits)

lemma generative_gauss_InrD:
  assumes "generative m lat basal = Inr go" and "loss_ae m = ''gauss''" and "wf_decoder m"
  shows "\<exists>f dp cp. decoder m = DecoderGauss f \<and> go = GaussOut (means go) (variances go) dp cp \<and>
           f lat = Inr (means go, variances go)"
  using assms unfolding generative_def wf_decoder_def
  by (auto simp: bind_e_eq_Inr split: decoder_net.splits if_splits)

lemma map_sum_bind_e:
  "map_sum id h (bind_e r g) = bind_e r (\<lambda>x. map_sum id h (g x))"
  by (cases r) simp_all

lemma embed_traverse_cong:
  assumes "\<forall>k\<in>fst ` set vocab. cd1 k = cd2 k"
  shows "traverse (\<lambda>(covar, n). embed_covar m cd1 covar) vocab
           = traverse (\<lambda>(covar, n). embed_covar m cd2 covar) vocab"
proof (rule traverse_cong_set, rule ballI)
  fix p assume "p \<in> set vocab"
  with assms have "cd1 (fst p) = cd2 (fst p)"
    by simp
  then show "(case p of (covar, n) \<Rightarrow> embed_covar m cd1 covar)
               = (case p of (covar, n) \<Rightarrow> embed_covar m cd2 covar)"
    by (cases p) (simp add: embed_covar_def getitem_def)
qed

lemma inference_cong:
  assumes "\<forall>k\<in>fst ` set (covars_to_ncovars m). cd1 k = cd2 k"
  shows "inference Normal_init m x doses cd1
           = map_sum id (\<lambda>out. out\<lparr>io_covars_dict := cd1\<rparr>) (inference Normal_init m x doses cd2)"
  unfolding inference_def embed_traverse_cong [OF assms]
  by (simp add: map_sum_bind_e case_prod_unfold)

lemma inference_missing_covariate:
  assumes "(c, n) \<in> set (covars_to_ncovars m)" and "cd c = None"
  shows "\<exists>e. inference Normal_init m x doses cd = Inl e"
proof (cases "inference Normal_init m x doses cd")
  case (Inl e)
  then show ?thesis by blast
next
  case (Inr out)
  from inference_InrD [OF Inr] obtain embs where
    tr: "traverse (\<lambda>(covar, n). embed_covar m cd covar) (covars_to_ncovars m) = Inr embs"
    by blast
  from assms(1) obtain k where k: "k < length (covars_to_ncovars m)"
      and ck: "covars_to_ncovars m ! k = (c, n)"
    by (auto simp: in_set_conv_nth)
  from traverse_Inr_nth [OF tr k] ck have "embed_covar m cd c = Inr (embs ! k)"
    by simp
  with assms(2) show ?thesis
    by (auto dest: embed_covar_Inr)
qed

lemma get_inference_input_missing:
  assumes "(c, n) \<in> set (covars_to_ncovars m)" and "covariates tensors c = None"
  shows "get_inference_input m tensors = Inl KeyError"
proof (cases "get_inference_input m tensors")
  case (Inl e)
  then show ?thesis by (simp add: get_inference_input_Inl)
next
  case (Inr ii)
  from get_inference_input_Inr(4) [OF Inr, of c] assms show ?thesis
    by force
qed

lemma get_generative_input_missing:
  assumes "(c, n) \<in> set (covars_to_ncovars m)" and "covariates tensors c = None"
  shows "\<exists>e. get_generative_input m tensors io = Inl e"
proof -
  let ?f = "\<lambda>(covar, n_covars).
              bind_e (getitem (covariates tensors) covar) (\<lambda>val. one_hot (squeeze val) n_covars)"
  have "?f (c, n) = Inl KeyError"
    using assms(2) by (simp add: getitem_def getkey_def)
  with assms(1) have "\<exists>e. traverse ?f (covars_to_ncovars m) = Inl e"
    by (rule traverse_fails [where f = ?f])
  then show ?thesis
    by (auto simp: get_generative_input_def)
qed

lemma get_inference_input_cong:
  assumes "X_KEY t1 = X_KEY t2" and "PERTURBATIONS t1 = PERTURBATIONS t2"
    and "\<forall>k\<in>fst ` set (covars_to_ncovars m). covariates t1 k = covariates t2 k"
  shows "get_inference_input m t1 = get_inference_input m t2"
  unfolding get_inference_input_def
  by (simp add: assms(1,2) covars_dict_loop_cong [OF assms(3)])

lemma get_generative_input_cong:
  assumes "\<forall>k\<in>fst ` set (covars_to_ncovars m). covariates t1 k = covariates t2 k"
  shows "get_generative_input m t1 io = get_generative_input m t2 io"
proof -
  have "traverse (\<lambda>(covar, n_covars).
           bind_e (getitem (covariates t1) covar) (\<lambda>val. one_hot (squeeze val) n_covars))
          (covars_to_ncovars m)
        = traverse (\<lambda>(covar, n_covars).
           bind_e (getitem (covariates t2) covar) (\<lambda>val. one_hot (squeeze val) n_covars))
          (covars_to_ncovars m)"
  proof (rule traverse_cong_set, rule ballI)
    fix p assume "p \<in> set (covars_to_ncovars m)"
    with assms have "covariates t1 (fst p) = covariates t2 (fst p)"
      by simp
    then show "(case p of (covar, n_covars) \<Rightarrow>
                  bind_e (getitem (covariates t1) covar) (\<lambda>val. one_hot (squeeze val) n_covars))
             = (case p of (covar, n_covars) \<Rightarrow>
                  bind_e (getitem (covariates t2) covar) (\<lambda>val. one_hot (squeeze val) n_covars))"
      by (cases p) (simp add: getitem_def)
  qed
  then show ?thesis
    by (simp add: get_generative_input_def)
qed

lemma forward_cong:
  assumes "X_KEY t1 = X_KEY t2" and "PERTURBATIONS t1 = PERTURBATIONS t2"
    and "\<forall>k\<in>fst ` set (covars_to_ncovars m). covariates t1 k = covariates t2 k"
  shows "forward Normal_init m t1 = forward Normal_init m t2"
  unfolding forward_def
  by (simp add: get_inference_input_cong [OF assms] get_generative_input_cong [OF assms(3)])

lemma small_forward:
  "forward Normal_unchecked small_module small_batch
     = Inr (small_inference_outputs, small_generative_outputs)"
  by (simp add: model_defs)

lemma small_batch_of: "batch_of small_module small_batch 2"
  by (simp add: batch_of_def covars_aligned_def small_module_def small_batch_def)

subsection \<open>The Gaussian loss\<close>

lemma sum_list_map_Fin: "sum_list (map Fin rs) = Fin (sum_list rs)"
  by (induction rs) (simp_all add: zero_fp_def)

lemma dims2_map_map: "dims2 (map (map f) t) b n = dims2 t b n"
  by (simp add: dims2_def list_all_length)

lemma nth_map_map: "dims2 t b n \<Longrightarrow> i < b \<Longrightarrow> j < n \<Longrightarrow> map (map f) t ! i ! j = f (t ! i ! j)"
  by (simp add: dims2_def list_all_length)

lemma mat_eqI:
  assumes "dims2 s b g" and "\<And>i j. i < b \<Longrightarrow> j < g \<Longrightarrow> s ! i ! j = F i j"
  shows "s = map (\<lambda>i. map (F i) [0..<g]) [0..<b]"
proof (rule nth_equalityI)
  show "length s = length (map (\<lambda>i. map (F i) [0..<g]) [0..<b])"
    using assms(1) by (simp add: dims2_def)
next
  fix i assume "i < length s"
  then have i: "i < b"
    using assms(1) by (simp add: dims2_def)
  then have "length (s ! i) = g"
    using assms(1) by (rule dims2_nth [rotated])
  then have "s ! i = map (F i) [0..<g]"
    using assms(2) [OF i] by (auto intro: nth_equalityI)
  then show "s ! i = map (\<lambda>i. map (F i) [0..<g]) [0..<b] ! i"
    using i by simp
qed

lemma sum_list_concat_rows: "sum_list (concat xss) = sum_list (map sum_list xss)"
  for xss :: "fp list list"
  by (induction xss) simp_all

lemma sum_list_grid:
  "sum_list (concat (map (\<lambda>i. map (\<lambda>j. Fin (F i j)) [0..<g]) [0..<b]))
     = Fin (\<Sum>i<b. \<Sum>j<g. F i j)"
proof -
  have row: "sum_list (map (\<lambda>j. Fin (F i j)) [0..<g]) = Fin (\<Sum>j<g. F i j)" for i
  proof -
    have "sum_list (map (\<lambda>j. Fin (F i j)) [0..<g]) = sum_list (map Fin (map (F i) [0..<g]))"
      by (simp add: comp_def)
    also have "\<dots> = Fin (sum_list (map (F i) [0..<g]))"
      by (rule sum_list_map_Fin)
    also have "sum_list (map (F i) [0..<g]) = (\<Sum>j<g. F i j)"
      by (simp add: interv_sum_list_conv_sum_set_nat atLeast0LessThan)
    finally show ?thesis .
  qed
  have "sum_list (concat (map (\<lambda>i. map (\<lambda>j. Fin (F i j)) [0..<g]) [0..<b]))
          = sum_list (map Fin (map (\<lambda>i. \<Sum>j<g. F i j) [0..<b]))"
    by (simp add: sum_list_concat_rows comp_def row)
  also have "\<dots> = Fin (sum_list (map (\<lambda>i. \<Sum>j<g. F i j) [0..<b]))"
    by (rule sum_list_map_Fin)
  also have "sum_list (map (\<lambda>i. \<Sum>j<g. F i j) [0..<b]) = (\<Sum>i<b. \<Sum>j<g. F i j)"
    by (simp add: interv_sum_list_conv_sum_set_nat atLeast0LessThan)
  finally show ?thesis .
qed

lemma length_grid: "length (concat (map (\<lambda>i. map (F i) [0..<g]) [0..<b])) = b * g"
  by (simp add: length_concat comp_def sum_list_triv)

lemma tmean_grid:
  assumes "0 < b" and "0 < g"
  shows "tmean (map (\<lambda>i. map (\<lambda>j. Fin (F i j)) [0..<g]) [0..<b])
           = Fin ((\<Sum>i<b. \<Sum>j<g. F i j) / real (b * g))"
  unfolding tmean_def sum_list_grid length_grid using assms by simp

lemma gauss_entry:
  assumes "0 < v"
  shows "fdiv (flog (Fin v)) (Fin 2) + fdiv (fpow2 (fsub (Fin x) (Fin a))) (fmul (Fin v) (Fin 2))
           = Fin (gauss_nll x a v)"
  using assms by (simp add: fsub_def gauss_nll_def power2_eq_square)

subsection \<open>The adversarial loops\<close>

lemma adv_covars_loop_Inr:
  assumes "adv_covars_loop m cp cd ks acc = Inr r"
  shows "\<exists>ls. length ls = length ks \<and>
           (\<forall>k<length ks. \<exists>logits level.
              cp (ks ! k) = Some logits \<and> cd (ks ! k) = Some level \<and>
              adv_loss_covariates m logits (squeeze level) = Inr (ls ! k)) \<and>
           r = acc + sum_list ls"
  using assms
proof (induction ks arbitrary: acc)
  case Nil
  then show ?case by simp
next
  case (Cons c ks)
  then obtain logits level l where c: "cp c = Some logits" "cd c = Some level"
      "adv_loss_covariates m logits (squeeze level) = Inr l"
    and rest: "adv_covars_loop m cp cd ks (acc + l) = Inr r"
    by (auto simp: bind_e_eq_Inr getitem_eq_Inr)
  from Cons.IH [OF rest] obtain ls where ls: "length ls = length ks"
      "\<forall>k<length ks. \<exists>logits level.
         cp (ks ! k) = Some logits \<and> cd (ks ! k) = Some level \<and>
         adv_loss_covariates m logits (squeeze level) = Inr (ls ! k)"
      "r = acc + l + sum_list ls"
    by blast
  have "\<forall>k<length (c # ks). \<exists>logits level.
          cp ((c # ks) ! k) = Some logits \<and> cd ((c # ks) ! k) = Some level \<and>
          adv_loss_covariates m logits (squeeze level) = Inr ((l # ls) ! k)"
  proof (intro allI impI)
    fix k assume "k < length (c # ks)"
    then show "\<exists>logits level.
          cp ((c # ks) ! k) = Some logits \<and> cd ((c # ks) ! k) = Some level \<and>
          adv_loss_covariates m logits (squeeze level) = Inr ((l # ls) ! k)"
      using c ls(2) by (cases k) simp_all
  qed
  moreover have "length (l # ls) = length (c # ks)" "r = acc + sum_list (l # ls)"
    using ls by (simp_all add: add.assoc)
  ultimately show ?case by blast
qed

lemma adv_penalty_loop_Inr:
  assumes "adv_penalty_loop grad cp basal ks acc = Inr r"
  shows "\<exists>gs. length gs = length ks \<and>
           (\<forall>k<length ks. \<exists>logits.
              cp (ks ! k) = Some logits \<and> grad (Some (ks ! k)) logits basal = Inr (gs ! k)) \<and>
           r = acc + sum_list (map (\<lambda>g. tmean (map (map fpow2) g)) gs)"
  using assms
proof (induction ks arbitrary: acc)
  case Nil
  then show ?case by simp
next
  case (Cons c ks)
  then obtain logits g where c: "cp c = Some logits" "grad (Some c) logits basal = Inr g"
    and rest: "adv_penalty_loop grad cp basal ks (acc + tmean (map (map fpow2) g)) = Inr r"
    by (auto simp: bind_e_eq_Inr getitem_eq_Inr)
  from Cons.IH [OF rest] obtain gs where gs: "length gs = length ks"
      "\<forall>k<length ks. \<exists>logits.
         cp (ks ! k) = Some logits \<and> grad (Some (ks ! k)) logits basal = Inr (gs ! k)"
      "r = acc + tmean (map (map fpow2) g) + sum_list (map (\<lambda>g. tmean (map (map fpow2) g)) gs)"
    by blast
  have "\<forall>k<length (c # ks). \<exists>logits.
          cp ((c # ks) ! k) = Some logits \<and>
          grad (Some ((c # ks) ! k)) logits basal = Inr ((g # gs) ! k)"
  proof (intro allI impI)
    fix k assume "k < length (c # ks)"
    then show "\<exists>logits. cp ((c # ks) ! k) = Some logits \<and>
          grad (Some ((c # ks) ! k)) logits basal = Inr ((g # gs) ! k)"
      using c gs(2) by (cases k) simp_all
  qed
  moreover have "length (g # gs) = length (c # ks)"
    "r = acc + sum_list (map (\<lambda>g. tmean (map (map fpow2) g)) (g # gs))"
    using gs by (simp_all add: add.assoc)
  ultimately show ?case by blast
qed

lemma fp_zero_add [simp]: "Fin 0 + x = x"
  using add_0_left [of x] by (simp add: zero_fp_def)

lemma adversarial_loss_InrD:
  assumes "adversarial_loss grad m tensors io go = Inr (adv_loss, adv_penalty)"
  shows "\<exists>doses adv_covars bce pen_covars gd.
           PERTURBATIONS tensors = Some doses \<and>
           adv_covars_loop m (covars_pred go) (io_covars_dict io)
             (map fst (covars_to_ncovars m)) (Fin 0) = Inr adv_covars \<and>
           adv_loss_drugs m (drugs_pred go) (map (map drug_target) doses) = Inr bce \<and>
           adv_penalty_loop grad (covars_pred go) (latent_basal io)
             (map fst (covars_to_ncovars m)) (Fin 0) = Inr pen_covars \<and>
           grad None (drugs_pred go) (latent_basal io) = Inr gd \<and>
           adv_loss = bce + adv_covars \<and>
           adv_penalty = pen_covars + tmean (map (map fpow2) gd)"
  using assms unfolding adversarial_loss_def
  by (auto simp: bind_e_eq_Inr getkey_eq_Inr)

lemma fge0_add: "fge0 x \<Longrightarrow> fge0 y \<Longrightarrow> fge0 (x + y)"
  by (cases x; cases y) simp_all

lemma fge0_sum_list: "list_all fge0 xs \<Longrightarrow> fge0 (sum_list xs)"
  by (induction xs) (simp_all add: zero_fp_def fge0_add)

lemma fge0_fpow2: "e \<noteq> NaN \<Longrightarrow> fge0 (fpow2 e)"
  by (cases e) simp_all

lemma fge0_mean:
  assumes "fge0 s" and "0 < n"
  shows "fge0 (fdiv s (Fin (real n)))"
  using assms by (cases s) simp_all

lemma fge0_penalty:
  assumes "nan_free g"
  shows "fge0 (tmean (map (map fpow2) g))"
proof -
  have c: "concat (map (map fpow2) g) = map fpow2 (concat g)"
    by (simp add: map_concat)
  from assms have "list_all fge0 (map fpow2 (concat g))"
    by (simp add: nan_free_def list_all_iff fge0_fpow2)
  then have "fge0 (sum_list (map fpow2 (concat g)))"
    by (rule fge0_sum_list)
  moreover from assms have "0 < length (map fpow2 (concat g))"
    by (simp add: nan_free_def)
  ultimately show ?thesis
    unfolding tmean_def c by (rule fge0_mean)
qed

lemma small_adversarial_loss:
  "\<exists>adv. adversarial_loss unit_grad small_module small_batch small_inference_outputs
      small_generative_outputs = Inr (adv, Fin 2)"
  by (simp add: model_defs unit_grad_def cross_entropy_def bce_with_logits_def fsub_def zero_fp_def)

section \<open>The composed latent vector\<close>

text \<open>
  Claim C1. On a batch whose dose matrix and covariate levels have one entry per cell,
  whenever \<open>inference\<close> returns, the returned latent has one row of \<open>n_latent\<close>
  entries per cell, and each entry is the sum of the entry of the basal state returned by
  the encoder, of the entries of the embedding lookups of all covariates of the
  vocabulary (for each covariate and cell, the row of the covariate's table at the
  cell's level), and of the entry of the drug embedding returned by the dose-response
  network on the doses.
\<close>

theorem inference_latent_composition:
  assumes wf: "wf_module m"
    and al: "covars_aligned m cd (length x)" and dl: "length doses = length x"
    and ok: "inference Normal_init m x doses cd = Inr out"
  shows "\<exists>embs treat.
           length embs = length (covars_to_ncovars m) \<and>
           (\<forall>k<length (covars_to_ncovars m). \<exists>W v.
              covars_embedding m (fst (covars_to_ncovars m ! k)) = Some W \<and>
              cd (fst (covars_to_ncovars m ! k)) = Some v \<and>
              (\<forall>i<length x. embs ! k ! i = W ! nat (v ! i))) \<and>
           drug_network m doses = Inr treat \<and>
           (case encoder m of
              FCLayers_enc f \<Rightarrow> f x = Inr (latent_basal out)
            | Encoder_enc f \<Rightarrow> (\<exists>qm qv. f x = Inr (qm, qv, latent_basal out))) \<and>
           dims2 (latent out) (length x) (n_latent m) \<and>
           (\<forall>i<length x. \<forall>j<n_latent m.
              latent out ! i ! j
                = latent_basal out ! i ! j + (\<Sum>e\<leftarrow>embs. e ! i ! j) + treat ! i ! j)"
proof -
  let ?b = "length x" and ?n = "n_latent m"
  from inference_latent_eq [OF wf al dl ok] obtain embs treat where
      tr: "traverse (\<lambda>(covar, n). embed_covar m cd covar) (covars_to_ncovars m) = Inr embs"
    and ne: "embs \<noteq> []"
    and dn: "drug_network m doses = Inr treat"
    and de: "list_all (\<lambda>u. dims2 u ?b ?n) embs"
    and dt: "dims2 treat ?b ?n"
    and db: "dims2 (latent_basal out) ?b ?n"
    and dc: "dims2 (sum0 embs) ?b ?n"
    and dl': "dims2 (latent out) ?b ?n"
    and l_eq: "latent out
                 = map2 (map2 (+)) (map2 (map2 (+)) (latent_basal out) (sum0 embs)) treat"
    by blast
  let ?s = "map2 (map2 (+)) (latent_basal out) (sum0 embs)"
  have ds: "dims2 ?s ?b ?n"
    using db dc by (rule dims2_map2)
  have pt: "latent out ! i ! j
              = latent_basal out ! i ! j + (\<Sum>e\<leftarrow>embs. e ! i ! j) + treat ! i ! j"
    if "i < ?b" "j < ?n" for i j
  proof -
    have "latent out ! i ! j = ?s ! i ! j + treat ! i ! j"
      unfolding l_eq using ds dt that by (rule nth_map2_map2)
    also have "?s ! i ! j = latent_basal out ! i ! j + sum0 embs ! i ! j"
      using db dc that by (rule nth_map2_map2)
    also have "sum0 embs ! i ! j = (\<Sum>e\<leftarrow>embs. e ! i ! j)"
      using ne de that by (rule sum0_nth)
    finally show ?thesis .
  qed
  have len: "length embs = length (covars_to_ncovars m)"
    using tr by (rule traverse_Inr_length)
  have look: "\<forall>k<length (covars_to_ncovars m). \<exists>W v.
              covars_embedding m (fst (covars_to_ncovars m ! k)) = Some W \<and>
              cd (fst (covars_to_ncovars m ! k)) = Some v \<and>
              (\<forall>i<length x. embs ! k ! i = W ! nat (v ! i))"
    using embs_lookup [OF al tr] by blast
  from inference_InrD [OF ok] have
    "case encoder m of
       FCLayers_enc f \<Rightarrow> f x = Inr (latent_basal out)
     | Encoder_enc f \<Rightarrow> (\<exists>qm qv. f x = Inr (qm, qv, latent_basal out))"
    by (auto split: encoder_net.splits)
  with len look dn dl' pt show ?thesis by blast
qed

theorem inference_latent_composition_witness:
  "wf_module small_module \<and>
   covars_aligned small_module [''batch'' \<mapsto> [0, 1]] 2 \<and>
   inference Normal_unchecked small_module [[Fin 1, Fin 2], [Fin 3, Fin 4]] [[Fin 0], [Fin 1]]
     [''batch'' \<mapsto> [0, 1]] = Inr small_inference_outputs \<and>
   latent small_inference_outputs ! 1 ! 0
     = latent_basal small_inference_outputs ! 1 ! 0 + [[Fin 0, Fin 0], [Fin 1, Fin 1]] ! 1 ! 0
       + [[Fin 0, Fin 0], [Fin 1, Fin 1]] ! 1 ! 0 \<and>
   latent small_inference_outputs ! 1 ! 0 = Fin 5"
proof -
  let ?x = "[[Fin 1, Fin 2], [Fin 3, Fin 4]]" and ?d = "[[Fin 0], [Fin 1]]"
  have al: "covars_aligned small_module [''batch'' \<mapsto> [0, 1]] (length ?x)"
    by (simp add: covars_aligned_def small_module_def)
  have dl: "length ?d = length ?x"
    by simp
  have n: "n_latent small_module = 2" "length (covars_to_ncovars small_module) = 1"
    by (simp_all add: small_module_def)
  from inference_latent_composition [OF wf_small_module al dl small_inference]
  obtain embs treat where
      len: "length embs = length (covars_to_ncovars small_module)"
    and look: "\<forall>k<length (covars_to_ncovars small_module). \<exists>W v.
              covars_embedding small_module (fst (covars_to_ncovars small_module ! k)) = Some W \<and>
              [''batch'' \<mapsto> [0, 1 :: int]] (fst (covars_to_ncovars small_module ! k)) = Some v \<and>
              (\<forall>i<length ?x. embs ! k ! i = W ! nat (v ! i))"
    and dn: "drug_network small_module ?d = Inr treat"
    and every: "\<forall>i<length ?x. \<forall>j<n_latent small_module.
       latent small_inference_outputs ! i ! j
         = latent_basal small_inference_outputs ! i ! j + (\<Sum>e\<leftarrow>embs. e ! i ! j) + treat ! i ! j"
    by blast
  from len n obtain e where embs: "embs = [e]"
    by (cases embs) auto
  from look n embs have "e ! 1 = [[Fin 0, Fin 0], [Fin 1, Fin 1]] ! 1"
    by (auto simp: small_module_def)
  moreover from dn have "treat = [[Fin 0, Fin 0], [Fin 1, Fin 1]]"
    by (simp add: small_module_def width_is_def)
  moreover from every n have "latent small_inference_outputs ! 1 ! 0
      = latent_basal small_inference_outputs ! 1 ! 0 + (\<Sum>e\<leftarrow>embs. e ! 1 ! 0) + treat ! 1 ! 0"
    by simp
  ultimately have pt: "latent small_inference_outputs ! 1 ! 0
     = latent_basal small_inference_outputs ! 1 ! 0 + [[Fin 0, Fin 0], [Fin 1, Fin 1]] ! 1 ! 0
       + [[Fin 0, Fin 0], [Fin 1, Fin 1]] ! 1 ! 0"
    by (simp add: embs)
  have five: "latent small_inference_outputs ! 1 ! 0 = Fin 5"
    by (simp add: small_inference_outputs_def)
  have al2: "covars_aligned small_module [''batch'' \<mapsto> [0, 1]] 2"
    by (simp add: covars_aligned_def small_module_def)
  from wf_small_module al2 small_inference pt five show ?thesis
    by (intro conjI)
qed

section \<open>The empty vocabulary\<close>

text \<open>
  With no covariate the list of embeddings is empty and \<open>torch.cat\<close> raises: whatever the
  batch, \<open>inference\<close> returns no latent.
\<close>

lemma inference_empty_vocabulary:
  assumes "covars_to_ncovars m = []"
  shows "\<exists>e. inference Normal_init m x doses cd = Inl e"
proof (cases "inference Normal_init m x doses cd")
  case (Inl e)
  then show ?thesis by blast
next
  case (Inr out)
  from inference_InrD [OF Inr] assms show ?thesis
    by auto
qed

text \<open>
  Claim C7 at the empty vocabulary: on the batch of two cells, the module built with no
  covariate raises RuntimeError in \<open>inference\<close> instead of returning a latent of
  \<open>n_latent\<close> columns.
\<close>

theorem inference_no_covariates_raises:
  "inference Normal_unchecked small_module_no_covars [[Fin 1, Fin 2], [Fin 3, Fin 4]]
     [[Fin 0], [Fin 1]] Map.empty = Inl RuntimeError"
  by (simp add: model_defs)

section \<open>The nullable fields of the inference outputs\<close>

text \<open>
  Claim C10. Whenever \<open>inference\<close> returns, \<open>dist_qz\<close> is \<open>None\<close> exactly when the
  module is not variational, and \<open>library\<close> is \<open>None\<close> exactly when the likelihood
  family is not "nb"; in every other configuration the field holds an object.
\<close>

theorem inference_nullable_fields:
  assumes "inference Normal_init m x doses cd = Inr out"
  shows "(dist_qz out = None \<longleftrightarrow> \<not> variational m) \<and>
         (library out = None \<longleftrightarrow> loss_ae m \<noteq> ''nb'')"
  using assms unfolding inference_def
  by (auto simp: bind_e_eq_Inr split: if_splits encoder_net.splits option.splits)

theorem inference_nullable_fields_witness:
  "inference Normal_unchecked small_module [[Fin 1, Fin 2], [Fin 3, Fin 4]] [[Fin 0], [Fin 1]]
     [''batch'' \<mapsto> [0, 1]] = Inr small_inference_outputs \<and>
   dist_qz small_inference_outputs = None \<and> \<not> variational small_module \<and>
   library small_inference_outputs = None \<and> loss_ae small_module \<noteq> ''nb'' \<and>
   (\<exists>out. inference Normal_unchecked small_module_vae [[Fin 1, Fin 2]] [[Fin 1]]
             [''batch'' \<mapsto> [1]] = Inr out \<and>
          dist_qz out \<noteq> None \<and> variational small_module_vae \<and>
          library out \<noteq> None \<and> loss_ae small_module_vae = ''nb'')"
proof -
  have a: "inference Normal_unchecked small_module [[Fin 1, Fin 2], [Fin 3, Fin 4]]
             [[Fin 0], [Fin 1]] [''batch'' \<mapsto> [0, 1]] = Inr small_inference_outputs"
    by (fact small_inference)
  obtain out where b: "inference Normal_unchecked small_module_vae [[Fin 1, Fin 2]] [[Fin 1]]
                         [''batch'' \<mapsto> [1]] = Inr out"
    by (simp add: model_defs)
  have c: "variational small_module_vae" "loss_ae small_module_vae = ''nb''"
          "\<not> variational small_module" "loss_ae small_module \<noteq> ''nb''"
    by (simp_all add: model_defs)
  from inference_nullable_fields [OF a] inference_nullable_fields [OF b] a b c
  show ?thesis by auto
qed

section \<open>The adversary reads the basal state only\<close>

text \<open>
  Claim C5. Two calls of \<open>generative\<close> with the same basal latent state and any two
  composed latent vectors return the same drug predictions and the same covariate
  predictions, whenever both return.
\<close>

theorem generative_reads_basal_only:
  assumes "generative m lat1 basal = Inr g1" and "generative m lat2 basal = Inr g2"
  shows "drugs_pred g1 = drugs_pred g2 \<and> covars_pred g1 = covars_pred g2"
  using assms unfolding generative_def
  by (auto simp: bind_e_eq_Inr split: if_splits decoder_net.splits)

theorem generative_reads_basal_only_witness:
  "generative small_module [[Fin 1, Fin 2], [Fin 5, Fin 6]] [[Fin 1, Fin 2], [Fin 3, Fin 4]]
     = Inr small_generative_outputs \<and>
   (\<exists>g2. generative small_module [[Fin 0, Fin 0], [Fin 9, Fin 9]] [[Fin 1, Fin 2], [Fin 3, Fin 4]]
            = Inr g2 \<and>
          means g2 \<noteq> means small_generative_outputs \<and>
          drugs_pred small_generative_outputs = drugs_pred g2 \<and>
          covars_pred small_generative_outputs = covars_pred g2)"
proof -
  obtain g2 where b: "generative small_module [[Fin 0, Fin 0], [Fin 9, Fin 9]]
                        [[Fin 1, Fin 2], [Fin 3, Fin 4]] = Inr g2"
      and c: "means g2 = [[Fin 0, Fin 0], [Fin 9, Fin 9]]"
    by (simp add: model_defs)
  have d: "means small_generative_outputs \<noteq> [[Fin 0, Fin 0], [Fin 9, Fin 9]]"
    by (simp add: small_generative_outputs_def)
  from generative_reads_basal_only [OF small_generative b] small_generative b c d
  show ?thesis by auto
qed

section \<open>The loss of the count likelihood\<close>

text \<open>
  Claim C9. For the likelihood family "nb" \<open>loss\<close> never returns a value: the dict of
  the count path has no key "means" (KeyError), and on a dict with means and variances the
  reconstruction loss is never assigned (UnboundLocalError). A missing expression matrix
  raises KeyError before either.
\<close>

theorem loss_nb_fails:
  assumes "loss_ae m = ''nb''"
  shows "loss m tensors io go = Inl KeyError \<or> loss m tensors io go = Inl UnboundLocalError"
  using assms unfolding loss_def
  by (cases "X_KEY tensors"; cases go) (simp_all add: getkey_def)

theorem loss_nb_fails_witness:
  "loss_ae small_module_nb = ''nb'' \<and>
   loss small_module_nb small_batch small_inference_outputs small_generative_outputs
     = Inl UnboundLocalError \<and>
   loss small_module_nb small_batch small_inference_outputs
     (NBOut (NegativeBinomial [[Fin 1, Fin 2]] [Fin 0, Fin 0]) [] Map.empty) = Inl KeyError"
proof -
  have a: "loss_ae small_module_nb = ''nb''"
    by (simp add: model_defs)
  from loss_nb_fails [OF a] a show ?thesis
    by (simp add: model_defs)
qed

section \<open>The expression query\<close>

text \<open>
  Claim C6. For the likelihood family "nb" \<open>get_expression\<close> raises on every batch.
  For the family "gauss", on a batch of \<open>b\<close> cells on which the forward pass returns,
  it returns the means and the variances of the generative outputs, each of shape
  (\<open>b\<close>, \<open>n_genes\<close>). The result is a function of the module and the batch.
\<close>

theorem get_expression_by_family:
  "(loss_ae m = ''nb'' \<longrightarrow> (\<exists>e. get_expression Normal_init m tensors = Inl e)) \<and>
   (loss_ae m = ''gauss'' \<and> wf_module m \<and> batch_of m tensors b \<and>
    forward Normal_init m tensors = Inr (io, go) \<longrightarrow>
      get_expression Normal_init m tensors = Inr (means go, variances go) \<and>
      dims2 (means go) b (n_genes m) \<and> dims2 (variances go) b (n_genes m))"
proof (intro conjI impI)
  assume nb: "loss_ae m = ''nb''"
  show "\<exists>e. get_expression Normal_init m tensors = Inl e"
    unfolding get_expression_def
    by (cases "forward Normal_init m tensors") (auto simp: nb)
next
  assume a: "loss_ae m = ''gauss'' \<and> wf_module m \<and> batch_of m tensors b \<and>
             forward Normal_init m tensors = Inr (io, go)"
  then have g: "loss_ae m = ''gauss''" and wf: "wf_module m" and bt: "batch_of m tensors b"
    and fw: "forward Normal_init m tensors = Inr (io, go)"
    by simp_all
  from forward_InrD [OF fw] obtain ii where
      ii: "get_inference_input m tensors = Inr ii"
    and inf: "inference Normal_init m (genes ii) (drugs_doses ii) (covars_dict ii) = Inr io"
    and gen: "generative m (latent io) (latent_basal io) = Inr go"
    by blast
  from bt get_inference_input_Inr(1,2) [OF ii]
  have lx: "length (genes ii) = b" and ld: "length (drugs_doses ii) = length (genes ii)"
    by (auto simp: batch_of_def)
  have "covars_aligned m (covars_dict ii) b = covars_aligned m (covariates tensors) b"
    by (rule covars_aligned_cong) (simp add: get_inference_input_Inr(3) [OF ii])
  with bt lx have al: "covars_aligned m (covars_dict ii) (length (genes ii))"
    by (simp add: batch_of_def)
  from inference_latent_eq [OF wf al ld inf] lx have dl: "dims2 (latent io) b (n_latent m)"
    by auto
  from wf have wd: "wf_decoder m"
    by (simp add: wf_module_def)
  from generative_gauss_InrD [OF gen g wd] obtain f dp cp where
      dec: "decoder m = DecoderGauss f"
    and go: "go = GaussOut (means go) (variances go) dp cp"
    and f: "f (latent io) = Inr (means go, variances go)"
    by blast
  from wd dec f have "dims2 (means go) (length (latent io)) (n_genes m)"
    "dims2 (variances go) (length (latent io)) (n_genes m)"
    by (auto simp: wf_decoder_def)
  moreover from dl have "length (latent io) = b"
    by (simp add: dims2_def)
  moreover have "get_expression Normal_init m tensors = Inr (means go, variances go)"
    unfolding get_expression_def using fw g go by (cases go) simp_all
  ultimately show "get_expression Normal_init m tensors = Inr (means go, variances go)"
    "dims2 (means go) b (n_genes m)" "dims2 (variances go) b (n_genes m)"
    by simp_all
qed

theorem get_expression_by_family_witness:
  "loss_ae small_module_nb = ''nb'' \<and>
   get_expression Normal_unchecked small_module_nb small_batch = Inl TypeError \<and>
   loss_ae small_module = ''gauss'' \<and> wf_module small_module \<and>
   batch_of small_module small_batch 2 \<and>
   forward Normal_unchecked small_module small_batch
     = Inr (small_inference_outputs, small_generative_outputs) \<and>
   get_expression Normal_unchecked small_module small_batch
     = Inr ([[Fin 1, Fin 2], [Fin 5, Fin 6]], [[Fin 1, Fin 1], [Fin 1, Fin 1]]) \<and>
   dims2 (means small_generative_outputs) 2 (n_genes small_module) \<and>
   dims2 (variances small_generative_outputs) 2 (n_genes small_module)"
proof -
  have nb: "loss_ae small_module_nb = ''nb''" and g: "loss_ae small_module = ''gauss''"
    by (simp_all add: model_defs)
  have e: "get_expression Normal_unchecked small_module_nb small_batch = Inl TypeError"
    by (simp add: model_defs)
  have mv: "means small_generative_outputs = [[Fin 1, Fin 2], [Fin 5, Fin 6]]"
    "variances small_generative_outputs = [[Fin 1, Fin 1], [Fin 1, Fin 1]]"
    by (simp_all add: small_generative_outputs_def)
  from get_expression_by_family
    [of small_module_nb Normal_unchecked small_batch 2 small_inference_outputs
        small_generative_outputs]
    get_expression_by_family
    [of small_module Normal_unchecked small_batch 2 small_inference_outputs
        small_generative_outputs]
    nb g e wf_small_module small_batch_of small_forward mv
  show ?thesis by simp
qed

section \<open>Covariate names\<close>

text \<open>
  Claim C8 as stated fails: a name that is not in the vocabulary is accepted. The batch
  below carries the extra covariate "plate"; \<open>get_expression\<close> and \<open>inference\<close>
  return as they do without it.
\<close>

theorem unknown_covariate_is_ignored:
  "''plate'' \<notin> fst ` set (covars_to_ncovars small_module) \<and>
   get_expression Normal_unchecked small_module
     (small_batch\<lparr>covariates := [''batch'' \<mapsto> [0, 1], ''plate'' \<mapsto> [7, 7]]\<rparr>)
     = Inr ([[Fin 1, Fin 2], [Fin 5, Fin 6]], [[Fin 1, Fin 1], [Fin 1, Fin 1]]) \<and>
   inference Normal_unchecked small_module [[Fin 1, Fin 2], [Fin 3, Fin 4]] [[Fin 0], [Fin 1]]
     [''batch'' \<mapsto> [0, 1], ''plate'' \<mapsto> [7, 7]]
     = Inr (small_inference_outputs
              \<lparr>io_covars_dict := [''batch'' \<mapsto> [0, 1], ''plate'' \<mapsto> [7, 7]]\<rparr>)"
  by (simp add: model_defs)

text \<open>
  Claim C8, amended. A covariate of the vocabulary that the batch does not supply makes
  \<open>_get_inference_input\<close> raise KeyError and \<open>_get_generative_input\<close>, the forward
  pass, \<open>get_expression\<close> and \<open>inference\<close> (called with a dict lacking it) raise;
  nothing catches the exception. A supplied name outside the vocabulary is never read:
  the results are those without it, and \<open>inference\<close> only hands the dict it was given
  on in its outputs.
\<close>

theorem covariate_names:
  "((c, n) \<in> set (covars_to_ncovars m) \<and> covariates tensors c = None \<longrightarrow>
      get_inference_input m tensors = Inl KeyError \<and>
      (\<exists>e. get_generative_input m tensors io = Inl e) \<and>
      (\<exists>e. forward Normal_init m tensors = Inl e) \<and>
      (\<exists>e. get_expression Normal_init m tensors = Inl e)) \<and>
   ((c, n) \<in> set (covars_to_ncovars m) \<and> cd c = None \<longrightarrow>
      (\<exists>e. inference Normal_init m x doses cd = Inl e)) \<and>
   (c \<notin> fst ` set (covars_to_ncovars m) \<longrightarrow>
      get_inference_input m (tensors\<lparr>covariates := (covariates tensors)(c \<mapsto> v)\<rparr>)
        = get_inference_input m tensors \<and>
      forward Normal_init m (tensors\<lparr>covariates := (covariates tensors)(c \<mapsto> v)\<rparr>)
        = forward Normal_init m tensors \<and>
      get_expression Normal_init m (tensors\<lparr>covariates := (covariates tensors)(c \<mapsto> v)\<rparr>)
        = get_expression Normal_init m tensors \<and>
      inference Normal_init m x doses (cd(c \<mapsto> v))
        = map_sum id (\<lambda>out. out\<lparr>io_covars_dict := cd(c \<mapsto> v)\<rparr>)
            (inference Normal_init m x doses cd))"
proof (intro conjI impI)
  assume a: "(c, n) \<in> set (covars_to_ncovars m) \<and> covariates tensors c = None"
  then have mem: "(c, n) \<in> set (covars_to_ncovars m)" and none: "covariates tensors c = None"
    by simp_all
  show ii: "get_inference_input m tensors = Inl KeyError"
    using mem none by (rule get_inference_input_missing)
  show "\<exists>e. get_generative_input m tensors io = Inl e"
    using mem none by (rule get_generative_input_missing)
  show fw: "\<exists>e. forward Normal_init m tensors = Inl e"
    by (simp add: forward_def ii)
  then show "\<exists>e. get_expression Normal_init m tensors = Inl e"
    by (auto simp: get_expression_def)
next
  assume "(c, n) \<in> set (covars_to_ncovars m) \<and> cd c = None"
  then show "\<exists>e. inference Normal_init m x doses cd = Inl e"
    by (auto intro: inference_missing_covariate)
next
  assume c: "c \<notin> fst ` set (covars_to_ncovars m)"
  let ?t = "tensors\<lparr>covariates := (covariates tensors)(c \<mapsto> v)\<rparr>"
  have same: "\<forall>k\<in>fst ` set (covars_to_ncovars m). covariates ?t k = covariates tensors k"
    using c by auto
  show "get_inference_input m ?t = get_inference_input m tensors"
    by (rule get_inference_input_cong [OF _ _ same]) simp_all
  show fw: "forward Normal_init m ?t = forward Normal_init m tensors"
    by (rule forward_cong [OF _ _ same]) simp_all
  show "get_expression Normal_init m ?t = get_expression Normal_init m tensors"
    by (simp add: get_expression_def fw)
  have "\<forall>k\<in>fst ` set (covars_to_ncovars m). (cd(c \<mapsto> v)) k = cd k"
    using c by auto
  then show "inference Normal_init m x doses (cd(c \<mapsto> v))
        = map_sum id (\<lambda>out. out\<lparr>io_covars_dict := cd(c \<mapsto> v)\<rparr>)
            (inference Normal_init m x doses cd)"
    by (rule inference_cong)
qed

theorem covariate_names_witness:
  "(''batch'', 2) \<in> set (covars_to_ncovars small_module) \<and>
   covariates (small_batch\<lparr>covariates := Map.empty\<rparr>) ''batch'' = None \<and>
   get_inference_input small_module (small_batch\<lparr>covariates := Map.empty\<rparr>) = Inl KeyError \<and>
   (\<exists>e. get_expression Normal_unchecked small_module (small_batch\<lparr>covariates := Map.empty\<rparr>)
          = Inl e) \<and>
   (\<exists>e. inference Normal_unchecked small_module [[Fin 1, Fin 2], [Fin 3, Fin 4]]
          [[Fin 0], [Fin 1]] Map.empty = Inl e) \<and>
   ''plate'' \<notin> fst ` set (covars_to_ncovars small_module) \<and>
   forward Normal_unchecked small_module
     (small_batch\<lparr>covariates := (covariates small_batch)(''plate'' \<mapsto> [7, 7])\<rparr>)
     = Inr (small_inference_outputs, small_generative_outputs)"
proof -
  have a: "(''batch'', 2) \<in> set (covars_to_ncovars small_module)"
    "covariates (small_batch\<lparr>covariates := Map.empty\<rparr>) ''batch'' = None"
    "Map.empty ''batch'' = (None :: int list option)"
    "''plate'' \<notin> fst ` set (covars_to_ncovars small_module)"
    by (simp_all add: small_module_def)
  from covariate_names
    [of "''batch''" 2 small_module "small_batch\<lparr>covariates := Map.empty\<rparr>"
        small_inference_outputs Normal_unchecked Map.empty
        "[[Fin 1, Fin 2], [Fin 3, Fin 4]]" "[[Fin 0], [Fin 1]]" "[]"]
    covariate_names
    [of "''plate''" 2 small_module small_batch
        small_inference_outputs Normal_unchecked Map.empty
        "[[Fin 1, Fin 2], [Fin 3, Fin 4]]" "[[Fin 0], [Fin 1]]" "[7, 7]"]
    a small_forward
  show ?thesis by simp
qed

section \<open>The Gaussian reconstruction loss\<close>

text \<open>
  Claim C2 as stated fails: strictly positive finite variances do not make the loss
  finite. With every variance 1, a NaN in the expression matrix gives the loss NaN, an
  infinite mean gives an infinite loss, and a batch without cells gives NaN (the mean
  of no entries).
\<close>

theorem loss_not_finite:
  "loss small_module (small_batch\<lparr>X_KEY := Some [[NaN, Fin 2], [Fin 3, Fin 4]]\<rparr>)
     small_inference_outputs small_generative_outputs = Inr NaN \<and>
   variances small_generative_outputs = [[Fin 1, Fin 1], [Fin 1, Fin 1]] \<and>
   loss small_module small_batch small_inference_outputs
     (GaussOut [[PInf, Fin 2], [Fin 5, Fin 6]] [[Fin 1, Fin 1], [Fin 1, Fin 1]]
        [[Fin 3], [Fin 7]] [''batch'' \<mapsto> [[Fin 1, Fin 2], [Fin 3, Fin 4]]]) = Inr PInf \<and>
   loss small_module (small_batch\<lparr>X_KEY := Some []\<rparr>) small_inference_outputs
     (GaussOut [] [] [] [''batch'' \<mapsto> []]) = Inr NaN"
  by (simp add: model_defs fsub_def zero_fp_def)

text \<open>
  Claim C2, amended. For the family "gauss", on an expression matrix, means and variances
  of the same shape with at least one entry, all finite and every variance strictly
  positive, \<open>loss\<close> returns the mean over all entries of
  \<open>0.5*log(variance) + (x-mean)^2/(2*variance)\<close>, a finite number (arithmetic on
  finite numbers being exact). No other term is added: the variational flag does not
  change the result of \<open>loss\<close> on any input.
\<close>

theorem loss_gauss_mean:
  assumes g: "loss_ae m = ''gauss''"
    and x: "X_KEY tensors = Some (map (map Fin) xr)"
    and dx: "dims2 xr b g" and dm: "dims2 mr b g" and dv: "dims2 vr b g"
    and b: "0 < b" and g0: "0 < g"
    and pos: "list_all (list_all (\<lambda>v. 0 < v)) vr"
  shows "loss m tensors io (GaussOut (map (map Fin) mr) (map (map Fin) vr) dp cp)
           = Inr (Fin ((\<Sum>i<b. \<Sum>j<g. gauss_nll (xr ! i ! j) (mr ! i ! j) (vr ! i ! j))
                       / real (b * g))) \<and>
         loss (m\<lparr>variational := flag\<rparr>) tensors io go = loss m tensors io go"
proof
  let ?x = "map (map Fin) xr" and ?mus = "map (map Fin) mr" and ?vars = "map (map Fin) vr"
  let ?term1 = "map (map (\<lambda>v. fdiv (flog v) (Fin 2))) ?vars"
  let ?d = "map2 (map2 fsub) ?x ?mus"
  let ?num = "map (map fpow2) ?d"
  let ?den = "map (map (\<lambda>v. fmul v (Fin 2))) ?vars"
  let ?term2 = "map2 (map2 fdiv) ?num ?den"
  let ?s = "map2 (map2 (+)) ?term1 ?term2"
  have dX: "dims2 ?x b g" and dM: "dims2 ?mus b g" and dV: "dims2 ?vars b g"
    using dx dm dv by (simp_all only: dims2_map_map)
  have dD: "dims2 ?d b g"
    using dX dM by (rule dims2_map2)
  have dN: "dims2 ?num b g" and dDen: "dims2 ?den b g" and dT1: "dims2 ?term1 b g"
    using dD dV by (simp_all only: dims2_map_map)
  have dT2: "dims2 ?term2 b g"
    using dN dDen by (rule dims2_map2)
  have dS: "dims2 ?s b g"
    using dT1 dT2 by (rule dims2_map2)
  have sub: "tsub ?x ?mus = Inr ?d"
    unfolding tsub_def using dX dM by (rule tbinop_same_dims)
  have dvd: "tdiv ?num ?den = Inr ?term2"
    unfolding tdiv_def using dN dDen by (rule tbinop_same_dims)
  have add: "tadd ?term1 ?term2 = Inr ?s"
    unfolding tadd_def using dT1 dT2 by (rule tbinop_same_dims)
  have entry: "?s ! i ! j = Fin (gauss_nll (xr ! i ! j) (mr ! i ! j) (vr ! i ! j))"
    if i: "i < b" and j: "j < g" for i j
  proof -
    from pos dv i j have v: "0 < vr ! i ! j"
      by (simp add: dims2_def list_all_length)
    have "?s ! i ! j = ?term1 ! i ! j + ?term2 ! i ! j"
      using dT1 dT2 i j by (rule nth_map2_map2)
    also have "?term1 ! i ! j = fdiv (flog (?vars ! i ! j)) (Fin 2)"
      using dV i j by (rule nth_map_map)
    also have "?term2 ! i ! j = fdiv (?num ! i ! j) (?den ! i ! j)"
      using dN dDen i j by (rule nth_map2_map2)
    also have "?num ! i ! j = fpow2 (?d ! i ! j)"
      using dD i j by (rule nth_map_map)
    also have "?d ! i ! j = fsub (?x ! i ! j) (?mus ! i ! j)"
      using dX dM i j by (rule nth_map2_map2)
    also have "?x ! i ! j = Fin (xr ! i ! j)"
      using dx i j by (rule nth_map_map)
    also have "?mus ! i ! j = Fin (mr ! i ! j)"
      using dm i j by (rule nth_map_map)
    also have "?den ! i ! j = fmul (?vars ! i ! j) (Fin 2)"
      using dV i j by (rule nth_map_map)
    also have "?vars ! i ! j = Fin (vr ! i ! j)"
      using dv i j by (rule nth_map_map)
    finally have "?s ! i ! j
        = fdiv (flog (Fin (vr ! i ! j))) (Fin 2)
          + fdiv (fpow2 (fsub (Fin (xr ! i ! j)) (Fin (mr ! i ! j))))
              (fmul (Fin (vr ! i ! j)) (Fin 2))" .
    also have "\<dots> = Fin (gauss_nll (xr ! i ! j) (mr ! i ! j) (vr ! i ! j))"
      using v by (rule gauss_entry)
    finally show ?thesis .
  qed
  have "?s = map (\<lambda>i. map (\<lambda>j. Fin (gauss_nll (xr ! i ! j) (mr ! i ! j) (vr ! i ! j))) [0..<g])
               [0..<b]"
    using dS entry by (rule mat_eqI)
  then have mean: "tmean ?s
      = Fin ((\<Sum>i<b. \<Sum>j<g. gauss_nll (xr ! i ! j) (mr ! i ! j) (vr ! i ! j)) / real (b * g))"
    by (simp only: tmean_grid [OF b g0])
  have "loss m tensors io (GaussOut ?mus ?vars dp cp) = Inr (tmean ?s)"
    by (simp only: loss_def x g getkey_def option.case generative_outputs.case bind_e_Inr
                   simp_thms if_True Let_def sub dvd add)
  with mean show "loss m tensors io (GaussOut ?mus ?vars dp cp)
           = Inr (Fin ((\<Sum>i<b. \<Sum>j<g. gauss_nll (xr ! i ! j) (mr ! i ! j) (vr ! i ! j))
                       / real (b * g)))"
    by (simp only:)
next
  show "loss (m\<lparr>variational := flag\<rparr>) tensors io go = loss m tensors io go"
    by (cases go) (simp_all add: loss_def)
qed

theorem loss_gauss_mean_witness:
  "loss_ae small_module = ''gauss'' \<and>
   X_KEY small_batch = Some (map (map Fin) [[1, 2], [3, 4]]) \<and>
   dims2 [[1, 2], [3, 4 :: real]] 2 2 \<and> dims2 [[1, 2], [5, 6 :: real]] 2 2 \<and>
   dims2 [[1, 1], [1, 1 :: real]] 2 2 \<and>
   list_all (list_all (\<lambda>v. 0 < v)) [[1, 1], [1, 1 :: real]] \<and>
   loss small_module small_batch small_inference_outputs small_generative_outputs = Inr (Fin 1) \<and>
   loss (small_module\<lparr>variational := True\<rparr>) small_batch small_inference_outputs
     small_generative_outputs = Inr (Fin 1)"
proof -
  have h: "loss_ae small_module = ''gauss''"
    "X_KEY small_batch = Some (map (map Fin) [[1, 2], [3, 4]])"
    "dims2 [[1, 2], [3, 4 :: real]] 2 2" "dims2 [[1, 2], [5, 6 :: real]] 2 2"
    "dims2 [[1, 1], [1, 1 :: real]] 2 2" "0 < (2 :: nat)" "0 < (2 :: nat)"
    "list_all (list_all (\<lambda>v. 0 < v)) [[1, 1], [1, 1 :: real]]"
    by (simp_all add: small_module_def small_batch_def dims2_def)
  have two: "{..<2::nat} = {0, 1}"
    by auto
  from loss_gauss_mean [OF h, of small_inference_outputs "[[Fin 3], [Fin 7]]"
      "[''batch'' \<mapsto> [[Fin 1, Fin 2], [Fin 3, Fin 4]]]" True small_generative_outputs]
  have "loss small_module small_batch small_inference_outputs small_generative_outputs = Inr (Fin 1)"
    "loss (small_module\<lparr>variational := True\<rparr>) small_batch small_inference_outputs
       small_generative_outputs = Inr (Fin 1)"
    by (simp_all add: small_generative_outputs_def two gauss_nll_def)
  with h show ?thesis by simp
qed

section \<open>The adversarial losses\<close>

text \<open>
  Claim C3. Whenever \<open>adversarial_loss\<close> returns, its first component is the value of
  the drug criterion (\<open>BCEWithLogitsLoss\<close>) on the drug logits and the targets, plus the
  sum over the covariates of the vocabulary of the value of the covariate criterion
  (\<open>CrossEntropyLoss\<close>) on that covariate's logits and its integer levels. The targets
  are the doses mapped entrywise to 1 where the dose is strictly greater than zero and to
  0 elsewhere (a NaN dose included).
\<close>

theorem adversarial_classification_loss:
  assumes "adversarial_loss grad m tensors io go = Inr (adv_loss, adv_penalty)"
  shows "\<exists>doses ces bce.
           PERTURBATIONS tensors = Some doses \<and>
           length ces = length (covars_to_ncovars m) \<and>
           (\<forall>k<length (covars_to_ncovars m). \<exists>logits level.
              covars_pred go (fst (covars_to_ncovars m ! k)) = Some logits \<and>
              io_covars_dict io (fst (covars_to_ncovars m ! k)) = Some level \<and>
              adv_loss_covariates m logits (squeeze level) = Inr (ces ! k)) \<and>
           adv_loss_drugs m (drugs_pred go) (map (map drug_target) doses) = Inr bce \<and>
           adv_loss = bce + sum_list ces \<and>
           drug_target (Fin a) = (if 0 < a then Fin 1 else Fin 0) \<and>
           drug_target PInf = Fin 1 \<and> drug_target NInf = Fin 0 \<and> drug_target NaN = Fin 0"
proof -
  from adversarial_loss_InrD [OF assms] obtain doses adv_covars bce where
      d: "PERTURBATIONS tensors = Some doses"
    and loop: "adv_covars_loop m (covars_pred go) (io_covars_dict io)
                 (map fst (covars_to_ncovars m)) (Fin 0) = Inr adv_covars"
    and bce: "adv_loss_drugs m (drugs_pred go) (map (map drug_target) doses) = Inr bce"
    and adv: "adv_loss = bce + adv_covars"
    by blast
  from adv_covars_loop_Inr [OF loop] obtain ces where
      len: "length ces = length (covars_to_ncovars m)"
    and each: "\<forall>k<length (covars_to_ncovars m). \<exists>logits level.
              covars_pred go (fst (covars_to_ncovars m ! k)) = Some logits \<and>
              io_covars_dict io (fst (covars_to_ncovars m ! k)) = Some level \<and>
              adv_loss_covariates m logits (squeeze level) = Inr (ces ! k)"
    and sum: "adv_covars = sum_list ces"
    by auto
  have "drug_target (Fin a) = (if 0 < a then Fin 1 else Fin 0)"
    "drug_target PInf = Fin 1" "drug_target NInf = Fin 0" "drug_target NaN = Fin 0"
    by (simp_all add: drug_target_def)
  with d len each bce adv sum show ?thesis by blast
qed

theorem adversarial_classification_loss_witness:
  "\<exists>adv ces bce.
     adversarial_loss unit_grad small_module small_batch small_inference_outputs
       small_generative_outputs = Inr (adv, Fin 2) \<and>
     length ces = 1 \<and>
     adv_loss_drugs small_module (drugs_pred small_generative_outputs) [[Fin 0], [Fin 1]]
       = Inr bce \<and>
     adv = bce + sum_list ces"
proof -
  from small_adversarial_loss obtain adv where
    a: "adversarial_loss unit_grad small_module small_batch small_inference_outputs
          small_generative_outputs = Inr (adv, Fin 2)"
    by blast
  from adversarial_classification_loss [OF a] obtain doses ces bce where
      d: "PERTURBATIONS small_batch = Some doses"
    and len: "length ces = length (covars_to_ncovars small_module)"
    and bce: "adv_loss_drugs small_module (drugs_pred small_generative_outputs)
                (map (map drug_target) doses) = Inr bce"
    and adv: "adv = bce + sum_list ces"
    by blast
  from d have "map (map drug_target) doses = [[Fin 0], [Fin 1]]"
    by (auto simp: small_batch_def drug_target_def)
  with bce have "adv_loss_drugs small_module (drugs_pred small_generative_outputs)
                   [[Fin 0], [Fin 1]] = Inr bce"
    by simp
  moreover from len have "length ces = 1"
    by (simp add: small_module_def)
  ultimately show ?thesis
    using a adv by blast
qed

text \<open>
  Claim C4 as stated fails: the penalty is not always greater than or equal to zero. On
  a batch without cells each gradient has no entry and its mean is NaN; a NaN entry in a
  gradient gives the penalty NaN as well; and no comparison with NaN holds.
\<close>

theorem penalty_not_a_number:
  "adversarial_loss (\<lambda>w y z. Inr (map (map (\<lambda>e. Fin 0)) z)) small_module
     \<lparr>X_KEY = Some [], PERTURBATIONS = Some [], covariates = [''batch'' \<mapsto> []]\<rparr>
     \<lparr>latent = [], latent_basal = [], dist_qz = None, library = None,
      io_covars_dict = [''batch'' \<mapsto> []]\<rparr>
     (GaussOut [] [] [] [''batch'' \<mapsto> []]) = Inr (NaN, NaN) \<and>
   map_sum id snd
     (adversarial_loss (\<lambda>w y z. Inr [[NaN, Fin 0], [Fin 0, Fin 0]]) small_module small_batch
        small_inference_outputs small_generative_outputs) = Inr NaN \<and>
   \<not> fge0 NaN"
  by (simp add: model_defs cross_entropy_def bce_with_logits_def fsub_def zero_fp_def)

text \<open>
  Claim C4, amended. Whenever \<open>adversarial_loss\<close> returns, its second component is
  the sum, over the covariate classifiers of the vocabulary and the drug classifier, of
  the mean over all entries of the squared gradient of the classifier's summed logits
  with respect to the basal latent (the gradient being what autograd returns). When every
  gradient has at least one entry and no NaN entry, the penalty is greater than or equal
  to zero.
\<close>

theorem adversarial_penalty:
  assumes "adversarial_loss grad m tensors io go = Inr (adv_loss, adv_penalty)"
  shows "\<exists>gs gd.
           length gs = length (covars_to_ncovars m) \<and>
           (\<forall>k<length (covars_to_ncovars m). \<exists>logits.
              covars_pred go (fst (covars_to_ncovars m ! k)) = Some logits \<and>
              grad (Some (fst (covars_to_ncovars m ! k))) logits (latent_basal io)
                = Inr (gs ! k)) \<and>
           grad None (drugs_pred go) (latent_basal io) = Inr gd \<and>
           adv_penalty
             = sum_list (map (\<lambda>g. tmean (map (map fpow2) g)) gs) + tmean (map (map fpow2) gd) \<and>
           (list_all nan_free gs \<and> nan_free gd \<longrightarrow> fge0 adv_penalty)"
proof -
  from adversarial_loss_InrD [OF assms] obtain pen_covars gd where
      loop: "adv_penalty_loop grad (covars_pred go) (latent_basal io)
               (map fst (covars_to_ncovars m)) (Fin 0) = Inr pen_covars"
    and gd: "grad None (drugs_pred go) (latent_basal io) = Inr gd"
    and pen: "adv_penalty = pen_covars + tmean (map (map fpow2) gd)"
    by blast
  from adv_penalty_loop_Inr [OF loop] obtain gs where
      len: "length gs = length (covars_to_ncovars m)"
    and each: "\<forall>k<length (covars_to_ncovars m). \<exists>logits.
              covars_pred go (fst (covars_to_ncovars m ! k)) = Some logits \<and>
              grad (Some (fst (covars_to_ncovars m ! k))) logits (latent_basal io)
                = Inr (gs ! k)"
    and sum: "pen_covars = sum_list (map (\<lambda>g. tmean (map (map fpow2) g)) gs)"
    by auto
  have "fge0 adv_penalty" if "list_all nan_free gs \<and> nan_free gd"
  proof -
    from that have "list_all fge0 (map (\<lambda>g. tmean (map (map fpow2) g)) gs)"
      by (simp add: list_all_iff fge0_penalty)
    then have "fge0 pen_covars"
      unfolding sum by (rule fge0_sum_list)
    moreover from that have "fge0 (tmean (map (map fpow2) gd))"
      by (simp add: fge0_penalty)
    ultimately show ?thesis
      unfolding pen by (rule fge0_add)
  qed
  with len each gd pen sum show ?thesis by blast
qed

theorem adversarial_penalty_witness:
  "\<exists>adv. adversarial_loss unit_grad small_module small_batch small_inference_outputs
      small_generative_outputs = Inr (adv, Fin 2) \<and>
    nan_free [[Fin 1, Fin 1], [Fin 1, Fin 1]] \<and>
    unit_grad None (drugs_pred small_generative_outputs)
      (latent_basal small_inference_outputs) = Inr [[Fin 1, Fin 1], [Fin 1, Fin 1]] \<and>
    fge0 (Fin 2)"
proof -
  from small_adversarial_loss obtain adv where
    a: "adversarial_loss unit_grad small_module small_batch small_inference_outputs
          small_generative_outputs = Inr (adv, Fin 2)"
    by blast
  have u: "unit_grad w y (latent_basal small_inference_outputs)
             = Inr [[Fin 1, Fin 1], [Fin 1, Fin 1]]"
    for w y
    by (simp add: unit_grad_def small_inference_outputs_def)
  have nf: "nan_free [[Fin 1, Fin 1], [Fin 1, Fin 1]]"
    by (simp add: nan_free_def)
  from adversarial_penalty [OF a] obtain gs gd where
      len: "length gs = length (covars_to_ncovars small_module)"
    and each: "\<forall>k<length (covars_to_ncovars small_module). \<exists>logits.
              covars_pred small_generative_outputs (fst (covars_to_ncovars small_module ! k))
                = Some logits \<and>
              unit_grad (Some (fst (covars_to_ncovars small_module ! k))) logits
                (latent_basal small_inference_outputs) = Inr (gs ! k)"
    and gd: "unit_grad None (drugs_pred small_generative_outputs)
               (latent_basal small_inference_outputs) = Inr gd"
    and imp: "list_all nan_free gs \<and> nan_free gd \<longrightarrow> fge0 (Fin 2)"
    by blast
  from gd u have gd': "gd = [[Fin 1, Fin 1], [Fin 1, Fin 1]]"
    by simp
  from len have l1: "length gs = 1"
    by (simp add: small_module_def)
  with each u have "gs ! 0 = [[Fin 1, Fin 1], [Fin 1, Fin 1]]"
    by (auto simp: small_module_def)
  with l1 have "gs = [[[Fin 1, Fin 1], [Fin 1, Fin 1]]]"
    by (cases gs) auto
  with imp gd' nf have "fge0 (Fin 2)"
    by simp
  with a nf u show ?thesis by blast
qed

end
